theory Spec2Isabelle
  imports Main "HOL-Library.Char_ord" "HOL-Library.List_Lexorder"
begin

section \<open>Admin user and role management: the request handlers\<close>

text \<open>
  The repository has four route modules: the user listing (a loader), the page that
  creates users and also creates and deletes roles (a loader and an action that branches
  on the form field \<open>intent\<close>), an earlier creation page without the role intents, and
  the page that edits one user. Each handler is embedded as a function from the data
  store before the request to its result and the data store after it.

  Strings are lists of characters. \<open>String.prototype.toLowerCase\<close> folds every
  cased letter of Unicode, so it is not defined here: it is a parameter of the handlers,
  and a property of it is assumed only where a theorem says so.
\<close>

subsection \<open>Form data and JavaScript values\<close>

datatype form_value = FormString string | FormFile string

type_synonym form_data = "(string \<times> form_value) list"

datatype js_value = JUndefined | JNull | JString string | JFile string | JArray "js_value list"

fun js_of :: "form_value \<Rightarrow> js_value" where
  "js_of (FormString s) = JString s"
| "js_of (FormFile n) = JFile n"

text \<open>\<open>formData.get(k)\<close>: the first value of the key, \<open>null\<close> (here \<open>None\<close>) when absent.\<close>

definition formData_get :: "form_data \<Rightarrow> string \<Rightarrow> form_value option" where
  "formData_get fd k = map_of fd k"

text \<open>\<open>formData.getAll(k)\<close>: every value of the key in order; an array, empty when absent.\<close>

definition formData_getAll :: "form_data \<Rightarrow> string \<Rightarrow> form_value list" where
  "formData_getAll fd k = map snd (filter (\<lambda>e. fst e = k) fd)"

fun js_of_entry :: "form_value option \<Rightarrow> js_value" where
  "js_of_entry None = JNull"
| "js_of_entry (Some v) = js_of v"

definition js_of_entries :: "form_value list \<Rightarrow> js_value" where
  "js_of_entries vs = JArray (map js_of vs)"

fun toString :: "form_value \<Rightarrow> string" where
  "toString (FormString s) = s"
| "toString (FormFile n) = ''[object File]''"

definition lower_char :: "char \<Rightarrow> char" where
  "lower_char c =
     (case map_of (zip ''ABCDEFGHIJKLMNOPQRSTUVWXYZ'' ''abcdefghijklmnopqrstuvwxyz'') c of
        None \<Rightarrow> c
      | Some l \<Rightarrow> l)"

text \<open>The lowercase folding of the letters A to Z, every other byte kept.\<close>

definition ascii_lower :: "string \<Rightarrow> string" where
  "ascii_lower s = map lower_char s"

subsection \<open>The validation schemas\<close>

text \<open>
  A schema maps an input value to its issue messages (\<open>Inl\<close>) or to the parsed value
  (\<open>Inr\<close>). \<open>flatten().fieldErrors\<close> keeps, per field, the messages of the issues
  whose path starts at that field, so the messages are all a schema has to report.
\<close>

type_synonym 'a schema = "js_value \<Rightarrow> string list + 'a"

fun parsed_type :: "js_value \<Rightarrow> string" where
  "parsed_type JUndefined = ''undefined''"
| "parsed_type JNull = ''null''"
| "parsed_type (JString s) = ''string''"
| "parsed_type (JFile n) = ''object''"
| "parsed_type (JArray xs) = ''array''"

definition invalid_type :: "string \<Rightarrow> js_value \<Rightarrow> string list" where
  "invalid_type expected v =
     (if v = JUndefined then [''Required'']
      else [''Expected '' @ expected @ '', received '' @ parsed_type v])"

fun z_string :: "string schema" where
  "z_string (JString s) = Inr s"
| "z_string v = Inl (invalid_type ''string'' v)"

definition z_min :: "nat \<Rightarrow> string \<Rightarrow> string schema \<Rightarrow> string schema" where
  "z_min n msg inner v =
     (case inner v of
        Inl es \<Rightarrow> Inl es
      | Inr s \<Rightarrow> if length s < n then Inl [msg] else Inr s)"

fun collect :: "(string list + 'a) list \<Rightarrow> string list + 'a list" where
  "collect [] = Inr []"
| "collect (r # rs) =
     (case r of
        Inl es \<Rightarrow> (case collect rs of Inl es' \<Rightarrow> Inl (es @ es') | Inr xs \<Rightarrow> Inl es)
      | Inr x \<Rightarrow> (case collect rs of Inl es' \<Rightarrow> Inl es' | Inr xs \<Rightarrow> Inr (x # xs)))"

fun z_array :: "'a schema \<Rightarrow> 'a list schema" where
  "z_array item (JArray xs) = collect (map item xs)"
| "z_array item v = Inl (invalid_type ''array'' v)"

text \<open>\<open>.default(d)\<close> replaces the input \<open>undefined\<close>, and only that input, by \<open>d\<close>.\<close>

definition z_default :: "'a \<Rightarrow> 'a schema \<Rightarrow> 'a schema" where
  "z_default d inner v = (if v = JUndefined then Inr d else inner v)"

subsection \<open>The data store\<close>

record user_row =
  user_id :: string
  user_email :: string
  user_username :: string
  user_name :: "string option"
  user_password :: "string option"
  user_roles :: "string list"
  user_createdAt :: nat

record role_row =
  role_name :: string
  role_description :: "string option"

datatype db_read =
    RoleFindMany
  | RoleFindUnique string
  | UserFindMany
  | UserFindUniqueId string
  | UserFindUniqueEmail string
  | UserFindUniqueUsername string
  | UserFindFirstEmail string string
  | UserFindFirstUsername string string

datatype db_write =
    RoleCreate string
  | RoleDelete string
  | UserCreate string string
  | UserUpdate string

datatype event = Authorize string | ParseForm | DbRead db_read | DbWrite db_write

text \<open>
  The state a handler runs in: the two tables (a user's role associations are kept in
  its row, by role name) and the log of what the handler has called so far.
\<close>

record world =
  users :: "user_row list"
  roles :: "role_row list"
  trace :: "event list"

datatype thrown = Response nat string | PrismaError string | TypeError

record request =
  session :: string
  body :: "form_data option"

text \<open>
  The collaborators that are not part of the route modules: the authorization gate,
  the three shared field rules, the password hash, the identifier and timestamp the
  store gives to a row created during the request, and the lowercase folding of the
  language.
\<close>

record env =
  requireUserWithRole :: "request \<Rightarrow> string \<Rightarrow> user_row list \<Rightarrow> thrown + string"
  EmailSchema :: "string schema"
  UsernameSchema :: "string schema"
  PasswordSchema :: "string schema"
  getPasswordHash :: "string \<Rightarrow> string"
  cuid :: string
  now :: nat
  toLowerCase :: "string \<Rightarrow> string"

type_synonym 'a io = "world \<Rightarrow> (thrown + 'a) \<times> world"

definition emit :: "event \<Rightarrow> world \<Rightarrow> world" where
  "emit e w = w\<lparr>trace := trace w @ [e]\<rparr>"

definition returns :: "'a \<Rightarrow> 'a io" where
  "returns v w = (Inr v, w)"

definition throws :: "thrown \<Rightarrow> 'a io" where
  "throws t w = (Inl t, w)"

text \<open>\<open>await m\<close> followed by the rest of the function body; a rejection ends the handler.\<close>

definition await :: "'a io \<Rightarrow> ('a \<Rightarrow> 'b io) \<Rightarrow> 'b io" where
  "await m k w = (case m w of (Inl t, w') \<Rightarrow> (Inl t, w') | (Inr x, w') \<Rightarrow> k x w')"

definition authorize :: "env \<Rightarrow> request \<Rightarrow> string \<Rightarrow> string io" where
  "authorize env req role w =
     (requireUserWithRole env req role (users w), emit (Authorize role) w)"

text \<open>\<open>request.formData()\<close> rejects when the body is not form data.\<close>

definition request_formData :: "request \<Rightarrow> form_data io" where
  "request_formData req w =
     (case body req of
        None \<Rightarrow> (Inl TypeError, emit ParseForm w)
      | Some fd \<Rightarrow> (Inr fd, emit ParseForm w))"

subsubsection \<open>Reads\<close>

definition prisma_role_findMany :: "role_row list io" where
  "prisma_role_findMany w = (Inr (sort_key role_name (roles w)), emit (DbRead RoleFindMany) w)"

definition prisma_role_findUnique :: "string \<Rightarrow> role_row option io" where
  "prisma_role_findUnique n w =
     (Inr (find (\<lambda>r. role_name r = n) (roles w)), emit (DbRead (RoleFindUnique n)) w)"

text \<open>
  \<open>orderBy: { createdAt: 'desc' }\<close>; rows of the same creation time keep the order of
  the table.
\<close>

definition prisma_user_findMany :: "user_row list io" where
  "prisma_user_findMany w =
     (Inr (sort_key (\<lambda>u. - int (user_createdAt u)) (users w)), emit (DbRead UserFindMany) w)"

definition prisma_user_findUnique_id :: "string \<Rightarrow> user_row option io" where
  "prisma_user_findUnique_id i w =
     (Inr (find (\<lambda>u. user_id u = i) (users w)), emit (DbRead (UserFindUniqueId i)) w)"

definition prisma_user_findUnique_email :: "string \<Rightarrow> string option io" where
  "prisma_user_findUnique_email e w =
     (Inr (map_option user_id (find (\<lambda>u. user_email u = e) (users w))),
      emit (DbRead (UserFindUniqueEmail e)) w)"

definition prisma_user_findUnique_username :: "string \<Rightarrow> string option io" where
  "prisma_user_findUnique_username n w =
     (Inr (map_option user_id (find (\<lambda>u. user_username u = n) (users w))),
      emit (DbRead (UserFindUniqueUsername n)) w)"

definition prisma_user_findFirst_email :: "string \<Rightarrow> string \<Rightarrow> string option io" where
  "prisma_user_findFirst_email e i w =
     (Inr (map_option user_id (find (\<lambda>u. user_email u = e \<and> user_id u \<noteq> i) (users w))),
      emit (DbRead (UserFindFirstEmail e i)) w)"

definition prisma_user_findFirst_username :: "string \<Rightarrow> string \<Rightarrow> string option io" where
  "prisma_user_findFirst_username n i w =
     (Inr (map_option user_id (find (\<lambda>u. user_username u = n \<and> user_id u \<noteq> i) (users w))),
      emit (DbRead (UserFindFirstUsername n i)) w)"

subsubsection \<open>Writes\<close>

text \<open>
  The store rejects a write that would break a unique column (\<open>P2002\<close>) and a write
  that names a row which does not exist (\<open>P2025\<close>): a role to connect, a user to
  update, a role to delete. A rejected write changes no table. Where both apply to one
  write, the unique column is reported.
\<close>

definition role_exists :: "world \<Rightarrow> string \<Rightarrow> bool" where
  "role_exists w n = (n \<in> set (map role_name (roles w)))"

definition prisma_role_create :: "string \<Rightarrow> unit io" where
  "prisma_role_create n w =
     (let w' = emit (DbWrite (RoleCreate n)) w in
      if role_exists w n then (Inl (PrismaError ''P2002''), w')
      else (Inr (), w'\<lparr>roles := roles w @ [\<lparr>role_name = n, role_description = None\<rparr>]\<rparr>))"

text \<open>Deleting a role deletes its associations with users, as the relation table does.\<close>

definition prisma_role_delete :: "string \<Rightarrow> unit io" where
  "prisma_role_delete n w =
     (let w' = emit (DbWrite (RoleDelete n)) w in
      if role_exists w n
      then (Inr (), w'\<lparr>roles := filter (\<lambda>r. role_name r \<noteq> n) (roles w),
                       users := map (\<lambda>u. u\<lparr>user_roles := removeAll n (user_roles u)\<rparr>) (users w)\<rparr>)
      else (Inl (PrismaError ''P2025''), w'))"

definition prisma_user_create ::
  "env \<Rightarrow> string \<Rightarrow> string \<Rightarrow> string \<Rightarrow> string \<Rightarrow> string list \<Rightarrow> string io" where
  "prisma_user_create env email username name hash connect w =
     (let w' = emit (DbWrite (UserCreate email username)) w in
      if list_ex (\<lambda>u. user_id u = cuid env \<or> user_email u = email \<or> user_username u = username)
           (users w)
      then (Inl (PrismaError ''P2002''), w')
      else if list_all (role_exists w) connect
      then (Inr username,
            w'\<lparr>users := users w @
              [\<lparr>user_id = cuid env, user_email = email, user_username = username,
                user_name = Some name, user_password = Some hash,
                user_roles = remdups connect, user_createdAt = now env\<rparr>]\<rparr>)
      else (Inl (PrismaError ''P2025''), w'))"

definition prisma_user_update ::
  "string \<Rightarrow> string \<Rightarrow> string \<Rightarrow> string \<Rightarrow> string list \<Rightarrow> unit io" where
  "prisma_user_update i email username name connect w =
     (let w' = emit (DbWrite (UserUpdate i)) w in
      if list_ex (\<lambda>u. user_id u = i) (users w)
      then
        if list_ex (\<lambda>u. user_id u \<noteq> i \<and> (user_email u = email \<or> user_username u = username))
             (users w)
        then (Inl (PrismaError ''P2002''), w')
        else if list_all (role_exists w) connect
        then (Inr (),
              w'\<lparr>users := map (\<lambda>u. if user_id u = i
                                    then u\<lparr>user_email := email, user_username := username,
                                           user_name := Some name, user_roles := remdups connect\<rparr>
                                    else u) (users w)\<rparr>)
        else (Inl (PrismaError ''P2025''), w')
      else (Inl (PrismaError ''P2025''), w'))"

subsection \<open>The object schemas of the creation and edit forms\<close>

record new_user_raw =
  nr_email :: "form_value option"
  nr_username :: "form_value option"
  nr_password :: "form_value option"
  nr_name :: "form_value option"
  nr_roles :: "form_value list"

record new_user =
  nu_email :: string
  nu_username :: string
  nu_password :: string
  nu_name :: string
  nu_roles :: "string list"

record edit_raw =
  er_email :: "form_value option"
  er_username :: "form_value option"
  er_name :: "form_value option"
  er_roles :: "form_value list"

record edit_user =
  eu_email :: string
  eu_username :: string
  eu_name :: string
  eu_roles :: "string list"

type_synonym field_errors = "(string \<times> string list) list"

fun issues :: "string list + 'a \<Rightarrow> string list" where
  "issues (Inl es) = es"
| "issues (Inr x) = []"

definition fieldErrors :: "field_errors \<Rightarrow> field_errors" where
  "fieldErrors fs = filter (\<lambda>f. snd f \<noteq> []) fs"

definition name_rule :: "string schema" where
  "name_rule = z_min 1 ''Name is required'' z_string"

definition roles_rule :: "string list schema" where
  "roles_rule = z_default [''user''] (z_array z_string)"

definition AddNewUserSchema_safeParse :: "env \<Rightarrow> new_user_raw \<Rightarrow> field_errors + new_user" where
  "AddNewUserSchema_safeParse env raw =
     (let e = EmailSchema env (js_of_entry (nr_email raw));
          u = UsernameSchema env (js_of_entry (nr_username raw));
          p = PasswordSchema env (js_of_entry (nr_password raw));
          n = name_rule (js_of_entry (nr_name raw));
          rs = roles_rule (js_of_entries (nr_roles raw))
      in if isl e \<or> isl u \<or> isl p \<or> isl n \<or> isl rs
         then Inl (fieldErrors [(''email'', issues e), (''username'', issues u),
                                (''password'', issues p), (''name'', issues n),
                                (''roles'', issues rs)])
         else Inr \<lparr>nu_email = projr e, nu_username = projr u, nu_password = projr p,
                   nu_name = projr n, nu_roles = projr rs\<rparr>)"

definition EditUserSchema_safeParse :: "env \<Rightarrow> edit_raw \<Rightarrow> field_errors + edit_user" where
  "EditUserSchema_safeParse env raw =
     (let e = EmailSchema env (js_of_entry (er_email raw));
          u = UsernameSchema env (js_of_entry (er_username raw));
          n = name_rule (js_of_entry (er_name raw));
          rs = roles_rule (js_of_entries (er_roles raw))
      in if isl e \<or> isl u \<or> isl n \<or> isl rs
         then Inl (fieldErrors [(''email'', issues e), (''username'', issues u),
                                (''name'', issues n), (''roles'', issues rs)])
         else Inr \<lparr>eu_email = projr e, eu_username = projr u,
                   eu_name = projr n, eu_roles = projr rs\<rparr>)"

subsection \<open>The handlers\<close>

datatype action_data =
    Errors field_errors nat
  | Success string
  | Redirect string
  | Undefined

fun is_errors :: "action_data \<Rightarrow> bool" where
  "is_errors (Errors es n) = True"
| "is_errors v = False"

record user_summary =
  us_id :: string
  us_email :: string
  us_username :: string
  us_name :: "string option"
  us_roles :: "string list"

definition summary :: "user_row \<Rightarrow> user_summary" where
  "summary u = \<lparr>us_id = user_id u, us_email = user_email u, us_username = user_username u,
                us_name = user_name u, us_roles = user_roles u\<rparr>"

subsubsection \<open>The user listing\<close>

definition loader_all_users :: "env \<Rightarrow> request \<Rightarrow> user_summary list io" where
  "loader_all_users env req =
     await (authorize env req ''admin'') (\<lambda>caller.
     await prisma_user_findMany (\<lambda>found.
     returns (map summary found)))"

subsubsection \<open>The creation page with the role intents\<close>

definition loader_add_new_users :: "env \<Rightarrow> request \<Rightarrow> string list io" where
  "loader_add_new_users env req =
     await (authorize env req ''admin'') (\<lambda>caller.
     await prisma_role_findMany (\<lambda>availableRoles.
     returns (map role_name availableRoles)))"

definition create_role_intent :: "env \<Rightarrow> form_data \<Rightarrow> action_data io" where
  "create_role_intent env formData =
     (case map_option (\<lambda>v. toLowerCase env (toString v)) (formData_get formData ''roleName'') of
        None \<Rightarrow> returns (Errors [(''role'', [''Role name is required''])] 400)
      | Some roleName \<Rightarrow>
          if roleName = [] then returns (Errors [(''role'', [''Role name is required''])] 400)
          else
            await (prisma_role_findUnique roleName) (\<lambda>existingRole.
            if existingRole \<noteq> None
            then returns (Errors [(''role'', [''This role already exists''])] 400)
            else
              await (prisma_role_create roleName) (\<lambda>created.
              returns (Success ''role''))))"

definition delete_role_intent :: "form_data \<Rightarrow> action_data io" where
  "delete_role_intent formData =
     (case map_option toString (formData_get formData ''roleName'') of
        None \<Rightarrow> returns (Errors [(''role'', [''Role name is required''])] 400)
      | Some roleName \<Rightarrow>
          if roleName = [] then returns (Errors [(''role'', [''Role name is required''])] 400)
          else if roleName = ''admin'' \<or> roleName = ''user''
          then returns (Errors [(''role'', [''Cannot delete system roles''])] 400)
          else
            await (prisma_role_delete roleName) (\<lambda>deleted.
            returns (Success ''delete-role'')))"

definition new_user_rawData :: "form_data \<Rightarrow> new_user_raw" where
  "new_user_rawData formData =
     \<lparr>nr_email = formData_get formData ''email'',
      nr_username = formData_get formData ''username'',
      nr_password = formData_get formData ''password'',
      nr_name = formData_get formData ''name'',
      nr_roles = formData_getAll formData ''roles''\<rparr>"

text \<open>
  The user creation of both creation pages, from building \<open>rawData\<close> to the call of
  \<open>prisma.user.create\<close>: the two modules have the same statements there and differ in
  the statement that follows the creation, which is the argument \<open>finish\<close>.
\<close>

definition create_user :: "env \<Rightarrow> form_data \<Rightarrow> action_data io \<Rightarrow> action_data io" where
  "create_user env formData finish =
     (case AddNewUserSchema_safeParse env (new_user_rawData formData) of
        Inl errs \<Rightarrow> returns (Errors errs 400)
      | Inr d \<Rightarrow>
          await (prisma_user_findUnique_email (toLowerCase env (nu_email d))) (\<lambda>existingEmail.
          if existingEmail \<noteq> None
          then returns (Errors [(''email'', [''A user with this email already exists''])] 400)
          else
            await (prisma_user_findUnique_username (toLowerCase env (nu_username d)))
              (\<lambda>existingUsername.
            if existingUsername \<noteq> None
            then returns
              (Errors [(''username'', [''A user with this username already exists''])] 400)
            else
              await (prisma_user_create env (toLowerCase env (nu_email d))
                       (toLowerCase env (nu_username d)) (nu_name d)
                       (getPasswordHash env (nu_password d)) (nu_roles d)) (\<lambda>newUser.
              finish))))"

text \<open>
  The last statement of the action is the expression \<open>redirect(...)\<close> without
  \<open>return\<close>: the response is built and dropped, and the function ends with no value.
\<close>

definition action_add_new_users :: "env \<Rightarrow> request \<Rightarrow> action_data io" where
  "action_add_new_users env req =
     await (authorize env req ''admin'') (\<lambda>caller.
     await (request_formData req) (\<lambda>formData.
     if formData_get formData ''intent'' = Some (FormString ''create-role'')
     then create_role_intent env formData
     else if formData_get formData ''intent'' = Some (FormString ''delete-role'')
     then delete_role_intent formData
     else create_user env formData (returns Undefined)))"

subsubsection \<open>The earlier creation page\<close>

definition loader_add_user :: "env \<Rightarrow> request \<Rightarrow> unit io" where
  "loader_add_user env req =
     await (authorize env req ''admin'') (\<lambda>caller.
     returns ())"

definition action_add_user :: "env \<Rightarrow> request \<Rightarrow> action_data io" where
  "action_add_user env req =
     await (authorize env req ''admin'') (\<lambda>caller.
     await (request_formData req) (\<lambda>formData.
     create_user env formData (returns (Redirect ''/admin/successful-user-created''))))"

subsubsection \<open>The edit page\<close>

definition loader_edit_user ::
  "env \<Rightarrow> request \<Rightarrow> string \<Rightarrow> (user_summary \<times> role_row list) io" where
  "loader_edit_user env req userId =
     await (authorize env req ''admin'') (\<lambda>caller.
     await prisma_role_findMany (\<lambda>availableRoles.
     await (prisma_user_findUnique_id userId) (\<lambda>found.
     case found of
       None \<Rightarrow> throws (Response 404 ''Not Found'')
     | Some u \<Rightarrow> returns (summary u, availableRoles))))"

definition edit_rawData :: "form_data \<Rightarrow> edit_raw" where
  "edit_rawData formData =
     \<lparr>er_email = formData_get formData ''email'',
      er_username = formData_get formData ''username'',
      er_name = formData_get formData ''name'',
      er_roles = formData_getAll formData ''roles''\<rparr>"

definition action_edit_user :: "env \<Rightarrow> request \<Rightarrow> string \<Rightarrow> action_data io" where
  "action_edit_user env req userId =
     await (authorize env req ''admin'') (\<lambda>caller.
     await (request_formData req) (\<lambda>formData.
     case EditUserSchema_safeParse env (edit_rawData formData) of
       Inl errs \<Rightarrow> returns (Errors errs 400)
     | Inr d \<Rightarrow>
         await (prisma_user_findFirst_email (toLowerCase env (eu_email d)) userId) (\<lambda>existingEmail.
         if existingEmail \<noteq> None
         then returns (Errors [(''email'', [''This email is already taken''])] 400)
         else
           await (prisma_user_findFirst_username (toLowerCase env (eu_username d)) userId)
             (\<lambda>existingUsername.
           if existingUsername \<noteq> None
           then returns (Errors [(''username'', [''This username is already taken''])] 400)
           else
             await (prisma_user_update userId (toLowerCase env (eu_email d))
                      (toLowerCase env (eu_username d)) (eu_name d) (eu_roles d)) (\<lambda>updated.
             returns (Redirect ''/admin/all-users''))))))"

subsection \<open>A concrete instance\<close>

text \<open>
  An instance of the collaborators and a small store, used to run the handlers on
  concrete requests: the gate looks the session's user up and asks for the role, the
  field rules ask for a minimal length, the folding is that of the ASCII letters (all
  strings of the instance are ASCII).
\<close>

definition demo_env :: env where
  "demo_env =
     \<lparr>requireUserWithRole = (\<lambda>req role us.
        case find (\<lambda>u. user_id u = session req) us of
          None \<Rightarrow> Inl (Response 302 ''/login'')
        | Some u \<Rightarrow> if role \<in> set (user_roles u) then Inr (user_id u)
                    else Inl (Response 403 ''Forbidden'')),
      EmailSchema = z_min 3 ''Email is too short'' z_string,
      UsernameSchema = z_min 3 ''Username is too short'' z_string,
      PasswordSchema = z_min 6 ''Password is too short'' z_string,
      getPasswordHash = (\<lambda>p. ''#'' @ rev p),
      cuid = ''u2'',
      now = 2,
      toLowerCase = ascii_lower\<rparr>"

definition root_user :: user_row where
  "root_user =
     \<lparr>user_id = ''u1'', user_email = ''root@b.com'', user_username = ''root'',
      user_name = Some ''Root'', user_password = Some ''#toor'',
      user_roles = [''admin''], user_createdAt = 1\<rparr>"

definition demo_world :: world where
  "demo_world =
     \<lparr>users = [root_user],
      roles = [\<lparr>role_name = ''admin'', role_description = None\<rparr>,
               \<lparr>role_name = ''user'', role_description = None\<rparr>],
      trace = []\<rparr>"

definition demo_request :: "form_data \<Rightarrow> request" where
  "demo_request fd = \<lparr>session = ''u1'', body = Some fd\<rparr>"

definition bob_form :: form_data where
  "bob_form =
     [(''email'', FormString ''A@B.com''), (''username'', FormString ''Bob''),
      (''password'', FormString ''validpass123''), (''name'', FormString ''Bob B'')]"

definition bob_user_form :: form_data where
  "bob_user_form = bob_form @ [(''roles'', FormString ''user'')]"

definition role_form :: "string \<Rightarrow> string \<Rightarrow> form_data" where
  "role_form intent n = [(''intent'', FormString intent), (''roleName'', FormString n)]"

definition editor_world :: world where
  "editor_world =
     snd (action_add_new_users demo_env (demo_request (role_form ''create-role'' ''editor''))
            demo_world)"

text \<open>
  A second folding, which knows one letter outside A to Z: the capital E with acute
  accent (character 0xC9) folds to the small one (0xE9); and a store that has a role
  whose name starts with the small one.
\<close>

definition latin_lower :: "string \<Rightarrow> string" where
  "latin_lower s = map (\<lambda>c. if c = CHR 0xC9 then CHR 0xE9 else lower_char c) s"

definition accent_env :: env where
  "accent_env = demo_env\<lparr>toLowerCase := latin_lower\<rparr>"

definition accent_world :: world where
  "accent_world =
     demo_world\<lparr>roles := roles demo_world @
       [\<lparr>role_name = CHR 0xE9 # ''ditor'', role_description = None\<rparr>]\<rparr>"

definition bob_world :: world where
  "bob_world = snd (action_add_user demo_env (demo_request bob_user_form) demo_world)"

definition bob_user :: user_row where
  "bob_user =
     \<lparr>user_id = ''u2'', user_email = ''a@b.com'', user_username = ''bob'',
      user_name = Some ''Bob B'', user_password = Some ''#321ssapdilav'',
      user_roles = [''user''], user_createdAt = 2\<rparr>"

definition root_form :: form_data where
  "root_form =
     [(''email'', FormString ''Root@B.com''), (''username'', FormString ''ROOT''),
      (''name'', FormString ''Root'')]"

definition takeover_form :: form_data where
  "takeover_form =
     [(''email'', FormString ''A@B.com''), (''username'', FormString ''Bob''),
      (''name'', FormString ''Root'')]"

text \<open>What a run of a handler adds to the log.\<close>

definition events :: "'a io \<Rightarrow> world \<Rightarrow> event list" where
  "events h w = drop (length (trace w)) (trace (snd (h w)))"

definition promote_form :: form_data where
  "promote_form =
     [(''email'', FormString ''a@b.com''), (''username'', FormString ''bob''),
      (''name'', FormString ''Bob B''), (''roles'', FormString ''admin'')]"

text \<open>A computation that only appends to the log it is given.\<close>

definition extends :: "'a io \<Rightarrow> bool" where
  "extends h = (\<forall>w. take (length (trace w)) (trace (snd (h w))) = trace w)"

definition rename_form :: form_data where
  "rename_form =
     [(''email'', FormString ''Bobby@B.COM''), (''username'', FormString ''BOBBY''),
      (''name'', FormString ''Bob B''), (''roles'', FormString ''user'')]"

subsection \<open>The invariant of the user table\<close>

text \<open>
  Stored emails and usernames are their own lowercase foldings, and identifiers, emails
  and usernames are pairwise different. The second definition is the invariant in the
  words of the specification: no two users share an email or a username up to case.
\<close>

definition normalized_rows :: "env \<Rightarrow> user_row list \<Rightarrow> bool" where
  "normalized_rows env us =
     list_all (\<lambda>u. toLowerCase env (user_email u) = user_email u
                  \<and> toLowerCase env (user_username u) = user_username u) us"

definition unique_rows :: "user_row list \<Rightarrow> bool" where
  "unique_rows us =
     (distinct (map user_id us) \<and> distinct (map user_email us)
      \<and> distinct (map user_username us))"

definition store_ok :: "env \<Rightarrow> world \<Rightarrow> bool" where
  "store_ok env w = (normalized_rows env (users w) \<and> unique_rows (users w))"

text \<open>The one property of the lowercase folding the invariant needs.\<close>

definition idempotent_fold :: "env \<Rightarrow> bool" where
  "idempotent_fold env = (\<forall>s. toLowerCase env (toLowerCase env s) = toLowerCase env s)"

definition case_insensitive_unique :: "env \<Rightarrow> world \<Rightarrow> bool" where
  "case_insensitive_unique env w =
     (distinct (map (\<lambda>u. toLowerCase env (user_email u)) (users w))
      \<and> distinct (map (\<lambda>u. toLowerCase env (user_username u)) (users w)))"

section \<open>Properties\<close>

subsection \<open>The log and the primitives\<close>

lemma users_emit: "users (emit e w) = users w"
  by (simp add: emit_def)

lemma roles_emit: "roles (emit e w) = roles w"
  by (simp add: emit_def)

lemma trace_emit: "trace (emit e w) = trace w @ [e]"
  by (simp add: emit_def)

lemma role_exists_emit: "role_exists (emit e w) = role_exists w"
  by (rule ext) (simp add: role_exists_def roles_emit)

lemma lower_char_idem: "lower_char (lower_char c) = lower_char c"
  by (simp add: lower_char_def)

lemma ascii_lower_idem: "ascii_lower (ascii_lower s) = ascii_lower s"
  by (simp add: ascii_lower_def lower_char_idem)

lemma demo_fold: "toLowerCase demo_env = ascii_lower"
  by (simp add: demo_env_def)

lemma demo_fold_idempotent: "idempotent_fold demo_env"
  by (simp add: idempotent_fold_def demo_fold ascii_lower_idem)

lemma fold_twice:
  "idempotent_fold env \<Longrightarrow> toLowerCase env (toLowerCase env s) = toLowerCase env s"
  by (simp add: idempotent_fold_def)

lemma find_None_role:
  "find (\<lambda>r. role_name r = n) (roles w) = None \<longleftrightarrow> \<not> role_exists w n"
  by (auto simp: role_exists_def find_None_iff)

lemma find_Some_role:
  "(\<exists>y. find (\<lambda>r. role_name r = n) (roles w) = Some y) \<longleftrightarrow> role_exists w n"
  using find_None_role [of n w] by (cases "find (\<lambda>r. role_name r = n) (roles w)") auto

lemma found_iff_list_ex: "(\<exists>z. find P xs = Some z) \<longleftrightarrow> list_ex P xs"
  by (induction xs) auto

lemma found_None_iff: "find P xs = None \<longleftrightarrow> \<not> list_ex P xs"
  by (induction xs) auto

lemma await_authorize:
  "await (authorize env req role) k w =
     (case requireUserWithRole env req role (users w) of
        Inl t \<Rightarrow> (Inl t, emit (Authorize role) w)
      | Inr caller \<Rightarrow> k caller (emit (Authorize role) w))"
  by (simp add: await_def authorize_def split: sum.splits)

lemma await_formData:
  "await (request_formData req) k w =
     (case body req of
        None \<Rightarrow> (Inl TypeError, emit ParseForm w)
      | Some fd \<Rightarrow> k fd (emit ParseForm w))"
  by (simp add: await_def request_formData_def split: option.splits)

subsection \<open>What each branch of the handlers computes\<close>

lemma create_role_intent_run:
  "create_role_intent env fd w =
     (case formData_get fd ''roleName'' of
        None \<Rightarrow> (Inr (Errors [(''role'', [''Role name is required''])] 400), w)
      | Some v \<Rightarrow>
          if toLowerCase env (toString v) = []
          then (Inr (Errors [(''role'', [''Role name is required''])] 400), w)
          else if role_exists w (toLowerCase env (toString v))
          then (Inr (Errors [(''role'', [''This role already exists''])] 400),
                emit (DbRead (RoleFindUnique (toLowerCase env (toString v)))) w)
          else (Inr (Success ''role''),
                (emit (DbWrite (RoleCreate (toLowerCase env (toString v))))
                   (emit (DbRead (RoleFindUnique (toLowerCase env (toString v)))) w))
                \<lparr>roles := roles w @
                   [\<lparr>role_name = toLowerCase env (toString v), role_description = None\<rparr>]\<rparr>))"
  by (simp add: create_role_intent_def returns_def await_def prisma_role_findUnique_def
      prisma_role_create_def find_None_role find_Some_role role_exists_emit
      roles_emit Let_def split: option.splits)

lemma delete_role_intent_run:
  "delete_role_intent fd w =
     (case formData_get fd ''roleName'' of
        None \<Rightarrow> (Inr (Errors [(''role'', [''Role name is required''])] 400), w)
      | Some v \<Rightarrow>
          if toString v = [] then (Inr (Errors [(''role'', [''Role name is required''])] 400), w)
          else if toString v = ''admin'' \<or> toString v = ''user''
          then (Inr (Errors [(''role'', [''Cannot delete system roles''])] 400), w)
          else if role_exists w (toString v)
          then (Inr (Success ''delete-role''),
                (emit (DbWrite (RoleDelete (toString v))) w)
                \<lparr>roles := filter (\<lambda>r. role_name r \<noteq> toString v) (roles w),
                  users := map (\<lambda>u. u\<lparr>user_roles := removeAll (toString v) (user_roles u)\<rparr>)
                             (users w)\<rparr>)
          else (Inl (PrismaError ''P2025''), emit (DbWrite (RoleDelete (toString v))) w))"
  by (simp add: delete_role_intent_def returns_def await_def prisma_role_delete_def Let_def
      split: option.splits)

lemma prisma_user_create_run:
  "await (prisma_user_create env e u n h rs) (\<lambda>newUser. returns v) w =
     (if list_ex (\<lambda>x. user_id x = cuid env \<or> user_email x = e \<or> user_username x = u) (users w)
      then (Inl (PrismaError ''P2002''), emit (DbWrite (UserCreate e u)) w)
      else if list_all (role_exists w) rs
      then (Inr v,
            (emit (DbWrite (UserCreate e u)) w)
            \<lparr>users := users w @
               [\<lparr>user_id = cuid env, user_email = e, user_username = u, user_name = Some n,
                 user_password = Some h, user_roles = remdups rs, user_createdAt = now env\<rparr>]\<rparr>)
      else (Inl (PrismaError ''P2025''), emit (DbWrite (UserCreate e u)) w))"
  by (simp add: await_def prisma_user_create_def returns_def Let_def)

lemma create_user_run:
  assumes "AddNewUserSchema_safeParse env (new_user_rawData fd) = Inr d"
  shows "create_user env fd (returns v) w =
     (if list_ex (\<lambda>x. user_email x = toLowerCase env (nu_email d)) (users w)
      then (Inr (Errors [(''email'', [''A user with this email already exists''])] 400),
            emit (DbRead (UserFindUniqueEmail (toLowerCase env (nu_email d)))) w)
      else if list_ex (\<lambda>x. user_username x = toLowerCase env (nu_username d)) (users w)
      then (Inr (Errors [(''username'', [''A user with this username already exists''])] 400),
            emit (DbRead (UserFindUniqueUsername (toLowerCase env (nu_username d))))
              (emit (DbRead (UserFindUniqueEmail (toLowerCase env (nu_email d)))) w))
      else await (prisma_user_create env (toLowerCase env (nu_email d)) (toLowerCase env (nu_username d))
                    (nu_name d) (getPasswordHash env (nu_password d)) (nu_roles d))
             (\<lambda>newUser. returns v)
             (emit (DbRead (UserFindUniqueUsername (toLowerCase env (nu_username d))))
                (emit (DbRead (UserFindUniqueEmail (toLowerCase env (nu_email d)))) w)))"
  using assms
  by (simp add: create_user_def await_def returns_def prisma_user_findUnique_email_def
      prisma_user_findUnique_username_def found_iff_list_ex found_None_iff users_emit)

lemma create_user_invalid:
  assumes "AddNewUserSchema_safeParse env (new_user_rawData fd) = Inl errs"
  shows "create_user env fd finish w = (Inr (Errors errs 400), w)"
  using assms by (simp add: create_user_def returns_def)

lemma action_edit_user_run:
  assumes "requireUserWithRole env req ''admin'' (users w) = Inr caller"
    and "body req = Some fd"
    and "EditUserSchema_safeParse env (edit_rawData fd) = Inr d"
  shows "action_edit_user env req i w =
     (let e = toLowerCase env (eu_email d); u = toLowerCase env (eu_username d);
          w1 = emit (DbRead (UserFindFirstEmail e i)) (emit ParseForm (emit (Authorize ''admin'') w));
          w2 = emit (DbRead (UserFindFirstUsername u i)) w1;
          w3 = emit (DbWrite (UserUpdate i)) w2
      in if list_ex (\<lambda>x. user_email x = e \<and> user_id x \<noteq> i) (users w)
         then (Inr (Errors [(''email'', [''This email is already taken''])] 400), w1)
         else if list_ex (\<lambda>x. user_username x = u \<and> user_id x \<noteq> i) (users w)
         then (Inr (Errors [(''username'', [''This username is already taken''])] 400), w2)
         else if list_ex (\<lambda>x. user_id x = i) (users w)
         then if list_all (role_exists w) (eu_roles d)
              then (Inr (Redirect ''/admin/all-users''),
                    w3\<lparr>users := map (\<lambda>x. if user_id x = i
                                          then x\<lparr>user_email := e, user_username := u,
                                                 user_name := Some (eu_name d),
                                                 user_roles := remdups (eu_roles d)\<rparr>
                                          else x) (users w)\<rparr>)
              else (Inl (PrismaError ''P2025''), w3)
         else (Inl (PrismaError ''P2025''), w3))"
proof -
  have no_other:
    "\<not> list_ex (\<lambda>x. user_email x = e \<and> user_id x \<noteq> i) us \<Longrightarrow>
     \<not> list_ex (\<lambda>x. user_username x = u \<and> user_id x \<noteq> i) us \<Longrightarrow>
     \<not> list_ex (\<lambda>x. user_id x \<noteq> i \<and> (user_email x = e \<or> user_username x = u)) us"
    for e u and us :: "user_row list"
    by (auto simp: list_ex_iff)
  show ?thesis
    using assms
    apply (simp add: action_edit_user_def await_authorize await_formData)
    apply (simp add: await_def returns_def prisma_user_findFirst_email_def
        prisma_user_findFirst_username_def prisma_user_update_def found_iff_list_ex
        found_None_iff users_emit role_exists_emit Let_def no_other)
    done
qed

subsection \<open>The concrete instance\<close>

lemma demo_gate:
  "requireUserWithRole demo_env (demo_request fd) ''admin'' (users demo_world) = Inr ''u1''"
  by (simp add: demo_env_def demo_request_def demo_world_def root_user_def)

lemma demo_body: "body (demo_request fd) = Some fd"
  by (simp add: demo_request_def)

lemma demo_users: "users demo_world = [root_user]"
  by (simp add: demo_world_def)

lemma demo_roles: "map role_name (roles demo_world) = [''admin'', ''user'']"
  by (simp add: demo_world_def)

lemma demo_role_exists: "role_exists demo_world n \<longleftrightarrow> n = ''admin'' \<or> n = ''user''"
  by (auto simp: role_exists_def demo_world_def)

lemma role_form_get:
  "formData_get (role_form i n) ''intent'' = Some (FormString i)"
  "formData_get (role_form i n) ''roleName'' = Some (FormString n)"
  by (simp_all add: role_form_def formData_get_def)

lemma lower_editor: "toLowerCase demo_env ''EDITOR'' = ''editor''" "toLowerCase demo_env ''editor'' = ''editor''"
  by (simp_all add: demo_fold ascii_lower_def lower_char_def)

subsection \<open>Role creation\<close>

lemma action_add_new_users_passed:
  assumes "requireUserWithRole env req ''admin'' (users w) = Inr caller"
    and "body req = Some fd"
  shows "action_add_new_users env req w =
     (if formData_get fd ''intent'' = Some (FormString ''create-role'')
      then create_role_intent env fd (emit ParseForm (emit (Authorize ''admin'') w))
      else if formData_get fd ''intent'' = Some (FormString ''delete-role'')
      then delete_role_intent fd (emit ParseForm (emit (Authorize ''admin'') w))
      else create_user env fd (returns Undefined) (emit ParseForm (emit (Authorize ''admin'') w)))"
  using assms by (simp add: action_add_new_users_def await_authorize await_formData)

text \<open>
  C4. A create-role request that has passed the gate, for any lowercase folding: the
  role name is the folded field, and it is the folded name that is tested, looked up
  and written. A missing field or an empty folded name is answered with 400 "Role name
  is required" and nothing is read or written (so is the empty field, the folding of
  the empty string being empty); a folded name that exists is answered with 400 "This
  role already exists" after the lookup and nothing is written; otherwise one row with
  the folded name is appended to the roles and the answer is the success of form type
  "role".
\<close>

theorem create_role_request:
  assumes gate: "requireUserWithRole env req ''admin'' (users w) = Inr caller"
    and form: "body req = Some fd"
    and intent: "formData_get fd ''intent'' = Some (FormString ''create-role'')"
    and name: "roleName = map_option (\<lambda>v. toLowerCase env (toString v)) (formData_get fd ''roleName'')"
    and started: "w0 = emit ParseForm (emit (Authorize ''admin'') w)"
  shows
    "(roleName = None \<or> roleName = Some [] \<longrightarrow>
        action_add_new_users env req w =
          (Inr (Errors [(''role'', [''Role name is required''])] 400), w0))
     \<and> (\<forall>n. roleName = Some n \<and> n \<noteq> [] \<and> role_exists w n \<longrightarrow>
        action_add_new_users env req w =
          (Inr (Errors [(''role'', [''This role already exists''])] 400),
           emit (DbRead (RoleFindUnique n)) w0))
     \<and> (\<forall>n. roleName = Some n \<and> n \<noteq> [] \<and> \<not> role_exists w n \<longrightarrow>
        action_add_new_users env req w =
          (Inr (Success ''role''),
           (emit (DbWrite (RoleCreate n)) (emit (DbRead (RoleFindUnique n)) w0))
           \<lparr>roles := roles w @ [\<lparr>role_name = n, role_description = None\<rparr>]\<rparr>))
     \<and> (toLowerCase env [] = [] \<and> formData_get fd ''roleName'' = Some (FormString []) \<longrightarrow>
        action_add_new_users env req w =
          (Inr (Errors [(''role'', [''Role name is required''])] 400), w0))"
  using intent name started
  by (auto simp: action_add_new_users_passed [OF gate form] create_role_intent_run
      role_exists_emit roles_emit split: option.splits)

lemma accent_gate:
  "requireUserWithRole accent_env (demo_request fd) ''admin'' (users accent_world) = Inr ''u1''"
  by (simp add: accent_env_def accent_world_def demo_env_def demo_request_def demo_world_def
      root_user_def)

lemma lower_accent: "toLowerCase accent_env (CHR 0xC9 # ''DITOR'') = CHR 0xE9 # ''ditor''"
  by (simp add: accent_env_def latin_lower_def lower_char_def)

lemma accent_role_exists: "role_exists accent_world (CHR 0xE9 # ''ditor'')"
  by (simp add: role_exists_def accent_world_def demo_world_def)

theorem create_role_request_witness:
  "fst (action_add_new_users demo_env (demo_request (role_form ''create-role'' ''editor''))
          demo_world) = Inr (Success ''role'')
   \<and> map role_name (roles editor_world) = [''admin'', ''user'', ''editor'']
   \<and> fst (action_add_new_users demo_env (demo_request (role_form ''create-role'' ''EDITOR''))
            editor_world) = Inr (Errors [(''role'', [''This role already exists''])] 400)
   \<and> roles (snd (action_add_new_users demo_env
                    (demo_request (role_form ''create-role'' ''EDITOR'')) editor_world))
       = roles editor_world
   \<and> action_add_new_users accent_env
         (demo_request (role_form ''create-role'' (CHR 0xC9 # ''DITOR''))) accent_world =
       (Inr (Errors [(''role'', [''This role already exists''])] 400),
        emit (DbRead (RoleFindUnique (CHR 0xE9 # ''ditor'')))
          (emit ParseForm (emit (Authorize ''admin'') accent_world)))"
proof -
  have first:
    "action_add_new_users demo_env (demo_request (role_form ''create-role'' ''editor''))
       demo_world =
     (Inr (Success ''role''),
      (emit (DbWrite (RoleCreate ''editor'')) (emit (DbRead (RoleFindUnique ''editor''))
         (emit ParseForm (emit (Authorize ''admin'') demo_world))))
      \<lparr>roles := roles demo_world @ [\<lparr>role_name = ''editor'', role_description = None\<rparr>]\<rparr>)"
    using create_role_request [OF demo_gate demo_body
        role_form_get(1) [where n = "''editor''"] refl refl]
    by (simp add: role_form_get lower_editor demo_role_exists)
  have users_editor: "users editor_world = users demo_world"
    and roles_editor: "map role_name (roles editor_world) = [''admin'', ''user'', ''editor'']"
    by (simp_all add: editor_world_def first users_emit roles_emit demo_roles)
  have gate: "requireUserWithRole demo_env (demo_request fd) ''admin'' (users editor_world)
      = Inr ''u1''" for fd
    by (simp add: users_editor demo_gate)
  have exists: "role_exists editor_world ''editor''"
    by (simp add: role_exists_def roles_editor)
  have second:
    "action_add_new_users demo_env (demo_request (role_form ''create-role'' ''EDITOR''))
       editor_world =
     (Inr (Errors [(''role'', [''This role already exists''])] 400),
      emit (DbRead (RoleFindUnique ''editor''))
        (emit ParseForm (emit (Authorize ''admin'') editor_world)))"
    using create_role_request [OF gate demo_body
        role_form_get(1) [where n = "''EDITOR''"] refl refl]
    by (simp add: role_form_get lower_editor exists)
  have third:
    "action_add_new_users accent_env
       (demo_request (role_form ''create-role'' (CHR 0xC9 # ''DITOR''))) accent_world =
     (Inr (Errors [(''role'', [''This role already exists''])] 400),
      emit (DbRead (RoleFindUnique (CHR 0xE9 # ''ditor'')))
        (emit ParseForm (emit (Authorize ''admin'') accent_world)))"
    using create_role_request [OF accent_gate demo_body
        role_form_get(1) [where n = "CHR 0xC9 # ''DITOR''"] refl refl]
    by (simp add: role_form_get lower_accent accent_role_exists)
  show ?thesis
    by (simp add: first second third roles_editor roles_emit)
qed

subsection \<open>Role deletion\<close>

lemma editor_world_run:
  "editor_world =
     (emit (DbWrite (RoleCreate ''editor'')) (emit (DbRead (RoleFindUnique ''editor''))
        (emit ParseForm (emit (Authorize ''admin'') demo_world))))
     \<lparr>roles := roles demo_world @ [\<lparr>role_name = ''editor'', role_description = None\<rparr>]\<rparr>"
  by (simp add: editor_world_def action_add_new_users_passed [OF demo_gate demo_body]
      role_form_get create_role_intent_run lower_editor role_exists_emit demo_role_exists
      roles_emit)

lemma editor_users: "users editor_world = [root_user]"
  by (simp add: editor_world_run users_emit demo_users)

lemma editor_roles: "map role_name (roles editor_world) = [''admin'', ''user'', ''editor'']"
  by (simp add: editor_world_run demo_roles)

lemma editor_gate:
  "requireUserWithRole demo_env (demo_request fd) ''admin'' (users editor_world) = Inr ''u1''"
  using demo_gate [of fd] by (simp add: editor_users demo_users)

lemma editor_role_exists:
  "role_exists editor_world n \<longleftrightarrow> n = ''admin'' \<or> n = ''user'' \<or> n = ''editor''"
  by (auto simp: role_exists_def editor_roles)

text \<open>
  C5, as the claim states it, at a concrete request: the role "editor" exists and the
  request asks to delete "Editor". The name is not empty and is not a system role, yet
  the answer is not a success: the store has no row of that name, the delete is
  rejected and the handler ends with the store's error.
\<close>

theorem delete_role_unknown_name_counterexample:
  "fst (action_add_new_users demo_env (demo_request (role_form ''delete-role'' ''Editor''))
          editor_world) = Inl (PrismaError ''P2025'')
   \<and> fst (action_add_new_users demo_env (demo_request (role_form ''delete-role'' ''Editor''))
          editor_world) \<noteq> Inr (Success ''delete-role'')"
  by (simp add: action_add_new_users_passed [OF editor_gate demo_body] role_form_get
      delete_role_intent_run role_exists_emit editor_role_exists)

text \<open>
  C5, amended. A delete-role request that has passed the gate: the role name is the
  field as submitted, not lowercased; an empty or missing name is answered with 400
  "Role name is required"; the names "admin" and "user" are answered with 400 "Cannot
  delete system roles", whoever the caller is, and nothing is deleted; any other name
  is handed to the store: when a role of exactly that name exists its row is deleted
  and the answer is the success of form type "delete-role", and when none exists the
  store rejects the delete and the handler fails with the store's error, the tables
  unchanged.
\<close>

theorem delete_role_request:
  assumes gate: "requireUserWithRole env req ''admin'' (users w) = Inr caller"
    and form: "body req = Some fd"
    and intent: "formData_get fd ''intent'' = Some (FormString ''delete-role'')"
    and name: "roleName = map_option toString (formData_get fd ''roleName'')"
    and started: "w0 = emit ParseForm (emit (Authorize ''admin'') w)"
  shows
    "(roleName = None \<or> roleName = Some [] \<longrightarrow>
        action_add_new_users env req w =
          (Inr (Errors [(''role'', [''Role name is required''])] 400), w0))
     \<and> (roleName = Some ''admin'' \<or> roleName = Some ''user'' \<longrightarrow>
        action_add_new_users env req w =
          (Inr (Errors [(''role'', [''Cannot delete system roles''])] 400), w0))
     \<and> (\<forall>n. roleName = Some n \<and> n \<noteq> [] \<and> n \<noteq> ''admin'' \<and> n \<noteq> ''user'' \<and> role_exists w n \<longrightarrow>
        action_add_new_users env req w =
          (Inr (Success ''delete-role''),
           (emit (DbWrite (RoleDelete n)) w0)
           \<lparr>roles := filter (\<lambda>r. role_name r \<noteq> n) (roles w),
             users := map (\<lambda>u. u\<lparr>user_roles := removeAll n (user_roles u)\<rparr>) (users w)\<rparr>))
     \<and> (\<forall>n. roleName = Some n \<and> n \<noteq> [] \<and> n \<noteq> ''admin'' \<and> n \<noteq> ''user'' \<and> \<not> role_exists w n \<longrightarrow>
        action_add_new_users env req w =
          (Inl (PrismaError ''P2025''), emit (DbWrite (RoleDelete n)) w0))"
  using intent name started
  by (auto simp: action_add_new_users_passed [OF gate form] delete_role_intent_run
      role_exists_emit roles_emit users_emit split: option.splits)

theorem delete_role_request_witness:
  "fst (action_add_new_users demo_env (demo_request (role_form ''delete-role'' ''editor''))
          editor_world) = Inr (Success ''delete-role'')
   \<and> map role_name (roles (snd (action_add_new_users demo_env
        (demo_request (role_form ''delete-role'' ''editor'')) editor_world)))
       = [''admin'', ''user'']
   \<and> action_add_new_users demo_env (demo_request (role_form ''delete-role'' ''admin''))
        editor_world =
       (Inr (Errors [(''role'', [''Cannot delete system roles''])] 400),
        emit ParseForm (emit (Authorize ''admin'') editor_world))
   \<and> action_add_new_users demo_env (demo_request (role_form ''delete-role'' ''ghost''))
        editor_world =
       (Inl (PrismaError ''P2025''),
        emit (DbWrite (RoleDelete ''ghost''))
          (emit ParseForm (emit (Authorize ''admin'') editor_world)))
   \<and> action_add_new_users demo_env (demo_request [(''intent'', FormString ''delete-role'')])
        editor_world =
       (Inr (Errors [(''role'', [''Role name is required''])] 400),
        emit ParseForm (emit (Authorize ''admin'') editor_world))"
proof -
  have intent_only:
    "formData_get [(''intent'', FormString ''delete-role'')] ''intent''
       = Some (FormString ''delete-role'')"
    "formData_get [(''intent'', FormString ''delete-role'')] ''roleName'' = None"
    by (simp_all add: formData_get_def)
  have gone:
    "action_add_new_users demo_env (demo_request (role_form ''delete-role'' ''editor''))
       editor_world =
     (Inr (Success ''delete-role''),
      (emit (DbWrite (RoleDelete ''editor''))
         (emit ParseForm (emit (Authorize ''admin'') editor_world)))
      \<lparr>roles := filter (\<lambda>r. role_name r \<noteq> ''editor'') (roles editor_world),
        users := map (\<lambda>u. u\<lparr>user_roles := removeAll ''editor'' (user_roles u)\<rparr>)
                   (users editor_world)\<rparr>)"
    using delete_role_request [OF editor_gate demo_body
        role_form_get(1) [where n = "''editor''"] refl refl]
    by (simp add: role_form_get editor_role_exists)
  have kept: "map role_name (filter (\<lambda>r. role_name r \<noteq> ''editor'') (roles editor_world))
      = [''admin'', ''user'']"
    by (simp add: editor_world_run demo_world_def)
  have system:
    "action_add_new_users demo_env (demo_request (role_form ''delete-role'' ''admin''))
       editor_world =
     (Inr (Errors [(''role'', [''Cannot delete system roles''])] 400),
      emit ParseForm (emit (Authorize ''admin'') editor_world))"
    using delete_role_request [OF editor_gate demo_body
        role_form_get(1) [where n = "''admin''"] refl refl]
    by (simp add: role_form_get)
  have missing:
    "action_add_new_users demo_env (demo_request (role_form ''delete-role'' ''ghost''))
       editor_world =
     (Inl (PrismaError ''P2025''),
      emit (DbWrite (RoleDelete ''ghost''))
        (emit ParseForm (emit (Authorize ''admin'') editor_world)))"
    using delete_role_request [OF editor_gate demo_body
        role_form_get(1) [where n = "''ghost''"] refl refl]
    by (simp add: role_form_get editor_role_exists)
  have empty:
    "action_add_new_users demo_env (demo_request [(''intent'', FormString ''delete-role'')])
       editor_world =
     (Inr (Errors [(''role'', [''Role name is required''])] 400),
      emit ParseForm (emit (Authorize ''admin'') editor_world))"
    using delete_role_request [OF editor_gate demo_body intent_only(1) refl refl]
    by (simp add: intent_only)
  show ?thesis
    by (simp add: gone kept system missing empty)
qed

text \<open>
  C10. The guard of the delete-role branch compares the submitted name, as submitted,
  with the two strings "admin" and "user": the answer is "Cannot delete system roles"
  exactly for these two names. A name that differs from them only in case, such as
  "Admin" or "USER", passes the guard, and the next thing the handler does is to ask
  the store to delete the role of that name.
\<close>

theorem delete_guard_compares_exact_names:
  assumes gate: "requireUserWithRole env req ''admin'' (users w) = Inr caller"
    and form: "body req = Some fd"
    and intent: "formData_get fd ''intent'' = Some (FormString ''delete-role'')"
    and name: "formData_get fd ''roleName'' = Some v"
    and filled: "toString v \<noteq> []"
  shows
    "(fst (action_add_new_users env req w)
        = Inr (Errors [(''role'', [''Cannot delete system roles''])] 400))
       = (toString v = ''admin'' \<or> toString v = ''user'')
     \<and> ((toLowerCase env (toString v) = ''admin'' \<or> toLowerCase env (toString v) = ''user'')
          \<and> toString v \<noteq> ''admin'' \<and> toString v \<noteq> ''user'' \<longrightarrow>
        fst (action_add_new_users env req w)
          \<noteq> Inr (Errors [(''role'', [''Cannot delete system roles''])] 400)
        \<and> trace (snd (action_add_new_users env req w))
          = trace w @ [Authorize ''admin'', ParseForm, DbWrite (RoleDelete (toString v))])"
  using intent name filled
  by (auto simp: action_add_new_users_passed [OF gate form] delete_role_intent_run
      role_exists_emit trace_emit)

theorem delete_guard_compares_exact_names_witness:
  "fst (action_add_new_users demo_env (demo_request (role_form ''delete-role'' ''Admin''))
          demo_world) \<noteq> Inr (Errors [(''role'', [''Cannot delete system roles''])] 400)
   \<and> trace (snd (action_add_new_users demo_env
        (demo_request (role_form ''delete-role'' ''Admin'')) demo_world))
       = [Authorize ''admin'', ParseForm, DbWrite (RoleDelete ''Admin'')]
   \<and> trace (snd (action_add_new_users demo_env
        (demo_request (role_form ''delete-role'' ''USER'')) demo_world))
       = [Authorize ''admin'', ParseForm, DbWrite (RoleDelete ''USER'')]"
proof -
  have lower: "toLowerCase demo_env ''Admin'' = ''admin''" "toLowerCase demo_env ''USER'' = ''user''"
    by (simp_all add: demo_fold ascii_lower_def lower_char_def)
  have empty: "trace demo_world = []"
    by (simp add: demo_world_def)
  show ?thesis
    using delete_guard_compares_exact_names [OF demo_gate demo_body
        role_form_get(1) [where n = "''Admin''"] role_form_get(2)]
      delete_guard_compares_exact_names [OF demo_gate demo_body
        role_form_get(1) [where n = "''USER''"] role_form_get(2)]
    by (simp add: lower empty)
qed

subsection \<open>User creation on the concrete instance\<close>

lemma bob_user_parse:
  "AddNewUserSchema_safeParse demo_env (new_user_rawData bob_user_form) =
     Inr \<lparr>nu_email = ''A@B.com'', nu_username = ''Bob'', nu_password = ''validpass123'',
          nu_name = ''Bob B'', nu_roles = [''user'']\<rparr>"
  by (simp add: AddNewUserSchema_safeParse_def new_user_rawData_def bob_user_form_def
      bob_form_def formData_get_def formData_getAll_def demo_env_def z_min_def name_rule_def
      roles_rule_def z_default_def js_of_entries_def)

lemma bob_parse:
  "AddNewUserSchema_safeParse demo_env (new_user_rawData bob_form) =
     Inr \<lparr>nu_email = ''A@B.com'', nu_username = ''Bob'', nu_password = ''validpass123'',
          nu_name = ''Bob B'', nu_roles = []\<rparr>"
  by (simp add: AddNewUserSchema_safeParse_def new_user_rawData_def
      bob_form_def formData_get_def formData_getAll_def demo_env_def z_min_def name_rule_def
      roles_rule_def z_default_def js_of_entries_def)

lemma root_parse:
  "EditUserSchema_safeParse demo_env (edit_rawData root_form) =
     Inr \<lparr>eu_email = ''Root@B.com'', eu_username = ''ROOT'', eu_name = ''Root'',
          eu_roles = []\<rparr>"
  by (simp add: EditUserSchema_safeParse_def edit_rawData_def
      root_form_def formData_get_def formData_getAll_def demo_env_def z_min_def name_rule_def
      roles_rule_def z_default_def js_of_entries_def)

lemma lower_bob:
  "toLowerCase demo_env ''A@B.com'' = ''a@b.com''" "toLowerCase demo_env ''Bob'' = ''bob''"
  "toLowerCase demo_env ''Root@B.com'' = ''root@b.com''" "toLowerCase demo_env ''ROOT'' = ''root''"
  by (simp_all add: demo_fold ascii_lower_def lower_char_def)

lemma bob_intent: "formData_get bob_user_form ''intent'' = None"
  "formData_get bob_form ''intent'' = None"
  by (simp_all add: bob_user_form_def bob_form_def formData_get_def)

lemma demo_env_fields:
  "cuid demo_env = ''u2''" "now demo_env = 2" "getPasswordHash demo_env p = ''#'' @ rev p"
  by (simp_all add: demo_env_def)

lemma action_add_user_passed:
  assumes "requireUserWithRole env req ''admin'' (users w) = Inr caller"
    and "body req = Some fd"
  shows "action_add_user env req w =
     create_user env fd (returns (Redirect ''/admin/successful-user-created''))
       (emit ParseForm (emit (Authorize ''admin'') w))"
  using assms by (simp add: action_add_user_def await_authorize await_formData)

lemma bob_created:
  "create_user demo_env bob_user_form (returns v)
     (emit ParseForm (emit (Authorize ''admin'') demo_world)) =
   (Inr v,
    (emit (DbWrite (UserCreate ''a@b.com'' ''bob''))
       (emit (DbRead (UserFindUniqueUsername ''bob''))
          (emit (DbRead (UserFindUniqueEmail ''a@b.com''))
             (emit ParseForm (emit (Authorize ''admin'') demo_world)))))
    \<lparr>users := [root_user, bob_user]\<rparr>)"
  by (simp add: create_user_run [OF bob_user_parse] prisma_user_create_run lower_bob users_emit
      demo_users role_exists_emit demo_role_exists demo_env_fields root_user_def bob_user_def)

lemma bob_without_role_created:
  "create_user demo_env bob_form (returns v)
     (emit ParseForm (emit (Authorize ''admin'') demo_world)) =
   (Inr v,
    (emit (DbWrite (UserCreate ''a@b.com'' ''bob''))
       (emit (DbRead (UserFindUniqueUsername ''bob''))
          (emit (DbRead (UserFindUniqueEmail ''a@b.com''))
             (emit ParseForm (emit (Authorize ''admin'') demo_world)))))
    \<lparr>users := [root_user, bob_user\<lparr>user_roles := []\<rparr>]\<rparr>)"
  by (simp add: create_user_run [OF bob_parse] prisma_user_create_run lower_bob users_emit
      demo_users role_exists_emit demo_role_exists demo_env_fields root_user_def bob_user_def)

text \<open>
  C1, at a concrete request. The form passes the schema, the email and the username
  are new, the user row is created; the action of the page with the role intents then
  ends without a value, where the earlier creation page returns the redirect.
\<close>

theorem creation_ends_without_response:
  "action_add_new_users demo_env (demo_request bob_user_form) demo_world =
     (Inr Undefined,
      (emit (DbWrite (UserCreate ''a@b.com'' ''bob''))
         (emit (DbRead (UserFindUniqueUsername ''bob''))
            (emit (DbRead (UserFindUniqueEmail ''a@b.com''))
               (emit ParseForm (emit (Authorize ''admin'') demo_world)))))
      \<lparr>users := [root_user, bob_user]\<rparr>)
   \<and> fst (action_add_new_users demo_env (demo_request bob_user_form) demo_world)
       \<noteq> Inr (Redirect ''/admin/successful-user-created'')
   \<and> fst (action_add_user demo_env (demo_request bob_user_form) demo_world)
       = Inr (Redirect ''/admin/successful-user-created'')"
  by (simp add: action_add_new_users_passed [OF demo_gate demo_body]
      action_add_user_passed [OF demo_gate demo_body] bob_intent bob_created)

lemma roles_rule_of_form: "roles_rule (js_of_entries vs) = collect (map z_string (map js_of vs))"
  by (simp add: roles_rule_def z_default_def js_of_entries_def)

lemma getAll_absent: "k \<notin> fst ` set fd \<Longrightarrow> formData_getAll fd k = []"
  by (induction fd) (auto simp: formData_getAll_def)

lemma omitted_roles_parse_empty:
  assumes "''roles'' \<notin> fst ` set fd"
    and "AddNewUserSchema_safeParse env (new_user_rawData fd) = Inr d"
  shows "nu_roles d = []"
  using assms
  by (auto simp: AddNewUserSchema_safeParse_def new_user_rawData_def getAll_absent
      roles_rule_of_form Let_def split: if_splits)

text \<open>
  C2, at concrete requests without any \<open>roles\<close> field. \<open>getAll\<close> gives the empty
  array, the default of the schema applies to \<open>undefined\<close> only, so the validated
  roles are empty: the created user is connected to no role, and the edited user (who
  had the role "admin") is left with no role.
\<close>

theorem omitted_roles_field_yields_no_roles:
  "formData_getAll bob_form ''roles'' = []
   \<and> roles_rule (js_of_entries (formData_getAll bob_form ''roles'')) = Inr []
   \<and> roles_rule JUndefined = Inr [''user'']
   \<and> AddNewUserSchema_safeParse demo_env (new_user_rawData bob_form) =
       Inr \<lparr>nu_email = ''A@B.com'', nu_username = ''Bob'', nu_password = ''validpass123'',
            nu_name = ''Bob B'', nu_roles = []\<rparr>
   \<and> map user_roles
        (users (snd (action_add_new_users demo_env (demo_request bob_form) demo_world)))
       = [[''admin''], []]
   \<and> fst (action_edit_user demo_env (demo_request root_form) ''u1'' demo_world)
       = Inr (Redirect ''/admin/all-users'')
   \<and> map user_roles
        (users (snd (action_edit_user demo_env (demo_request root_form) ''u1'' demo_world)))
       = [[]]"
proof -
  have none: "formData_getAll bob_form ''roles'' = []"
    by (simp add: bob_form_def formData_getAll_def)
  have rule: "roles_rule (js_of_entries []) = Inr []" "roles_rule JUndefined = Inr [''user'']"
    by (simp_all add: roles_rule_def z_default_def js_of_entries_def)
  have created:
    "map user_roles
       (users (snd (action_add_new_users demo_env (demo_request bob_form) demo_world)))
     = [[''admin''], []]"
    by (simp add: action_add_new_users_passed [OF demo_gate demo_body] bob_intent
        bob_without_role_created root_user_def bob_user_def)
  have edited:
    "action_edit_user demo_env (demo_request root_form) ''u1'' demo_world =
     (Inr (Redirect ''/admin/all-users''),
      (emit (DbWrite (UserUpdate ''u1''))
         (emit (DbRead (UserFindFirstUsername ''root'' ''u1''))
            (emit (DbRead (UserFindFirstEmail ''root@b.com'' ''u1''))
               (emit ParseForm (emit (Authorize ''admin'') demo_world)))))
      \<lparr>users := [root_user\<lparr>user_email := ''root@b.com'', user_username := ''root'',
                            user_name := Some ''Root'', user_roles := []\<rparr>]\<rparr>)"
    by (simp add: action_edit_user_run [OF demo_gate demo_body root_parse] lower_bob
        demo_users Let_def root_user_def)
  show ?thesis
    by (simp add: none rule bob_parse created edited)
qed

subsection \<open>The uniqueness checks\<close>

lemma bob_world_run:
  "bob_world =
     (emit (DbWrite (UserCreate ''a@b.com'' ''bob''))
        (emit (DbRead (UserFindUniqueUsername ''bob''))
           (emit (DbRead (UserFindUniqueEmail ''a@b.com''))
              (emit ParseForm (emit (Authorize ''admin'') demo_world)))))
     \<lparr>users := [root_user, bob_user]\<rparr>"
  by (simp add: bob_world_def action_add_user_passed [OF demo_gate demo_body] bob_created)

lemma bob_world_users: "users bob_world = [root_user, bob_user]"
  by (simp add: bob_world_run)

lemma bob_world_role_exists: "role_exists bob_world n \<longleftrightarrow> n = ''admin'' \<or> n = ''user''"
  by (simp add: bob_world_run role_exists_def roles_emit demo_roles)

lemma bob_world_gate:
  "requireUserWithRole demo_env (demo_request fd) ''admin'' (users bob_world) = Inr ''u1''"
  by (simp add: bob_world_users demo_env_def demo_request_def root_user_def)

lemma takeover_parse:
  "EditUserSchema_safeParse demo_env (edit_rawData takeover_form) =
     Inr \<lparr>eu_email = ''A@B.com'', eu_username = ''Bob'', eu_name = ''Root'', eu_roles = []\<rparr>"
  by (simp add: EditUserSchema_safeParse_def edit_rawData_def
      takeover_form_def formData_get_def formData_getAll_def demo_env_def z_min_def name_rule_def
      roles_rule_def z_default_def js_of_entries_def)

lemma events_eq: "trace (snd (h w)) = trace w @ es \<Longrightarrow> events h w = es"
  by (simp add: events_def)

lemma add_user_email_conflict:
  assumes "requireUserWithRole env req ''admin'' (users w) = Inr caller"
    and "body req = Some fd"
    and "AddNewUserSchema_safeParse env (new_user_rawData fd) = Inr d"
    and "list_ex (\<lambda>u. user_email u = toLowerCase env (nu_email d)) (users w)"
  shows "action_add_user env req w =
     (Inr (Errors [(''email'', [''A user with this email already exists''])] 400),
      emit (DbRead (UserFindUniqueEmail (toLowerCase env (nu_email d))))
        (emit ParseForm (emit (Authorize ''admin'') w)))"
  using assms(4)
  by (simp add: action_add_user_passed [OF assms(1,2)] create_user_run [OF assms(3)] users_emit)

lemma add_new_users_email_conflict:
  assumes "requireUserWithRole env req ''admin'' (users w) = Inr caller"
    and "body req = Some fd"
    and "formData_get fd ''intent'' \<noteq> Some (FormString ''create-role'')"
    and "formData_get fd ''intent'' \<noteq> Some (FormString ''delete-role'')"
    and "AddNewUserSchema_safeParse env (new_user_rawData fd) = Inr d"
    and "list_ex (\<lambda>u. user_email u = toLowerCase env (nu_email d)) (users w)"
  shows "action_add_new_users env req w =
     (Inr (Errors [(''email'', [''A user with this email already exists''])] 400),
      emit (DbRead (UserFindUniqueEmail (toLowerCase env (nu_email d))))
        (emit ParseForm (emit (Authorize ''admin'') w)))"
  using assms(3,4,6)
  by (simp add: action_add_new_users_passed [OF assms(1,2)] create_user_run [OF assms(5)]
      users_emit)

lemma add_new_users_username_checked:
  assumes gate: "requireUserWithRole env req ''admin'' (users w) = Inr caller"
    and form: "body req = Some fd"
    and parse: "AddNewUserSchema_safeParse env (new_user_rawData fd) = Inr d"
    and checked: "DbRead (UserFindUniqueUsername n) \<in> set (events (action_add_new_users env req) w)
      \<or> fst (action_add_new_users env req w)
          = Inr (Errors [(''username'', [''A user with this username already exists''])] 400)"
  shows "\<not> list_ex (\<lambda>u. user_email u = toLowerCase env (nu_email d)) (users w)"
proof
  assume conflict: "list_ex (\<lambda>u. user_email u = toLowerCase env (nu_email d)) (users w)"
  show False
  proof (cases "formData_get fd ''intent'' = Some (FormString ''create-role'')
      \<or> formData_get fd ''intent'' = Some (FormString ''delete-role'')")
    case True
    then show False
      using checked
      by (auto simp: action_add_new_users_passed [OF gate form] events_def trace_emit
          create_role_intent_run delete_role_intent_run split: option.splits if_splits)
  next
    case False
    then show False
      using checked add_new_users_email_conflict [OF gate form _ _ parse conflict]
      by (auto simp: events_def trace_emit)
  qed
qed

text \<open>
  C3. A creation or edit request that has passed the gate and the schema, and whose
  lowercased email is the email of an existing user (for an edit: of a user other than
  the target): the answer is the 400 result whose only entry is \<open>email\<close>; the store
  after the request is the store before it with three log entries, the gate, the form
  and the email lookup, so there is no username lookup and no write. Conversely, a run
  that has looked the username up, or that answers with the username conflict, has
  found no email conflict.
\<close>

theorem email_conflict_ends_the_request:
  assumes gate: "requireUserWithRole env req ''admin'' (users w) = Inr caller"
    and form: "body req = Some fd"
    and started: "w0 = emit ParseForm (emit (Authorize ''admin'') w)"
  shows
    "(\<forall>d. AddNewUserSchema_safeParse env (new_user_rawData fd) = Inr d \<longrightarrow>
        (list_ex (\<lambda>u. user_email u = toLowerCase env (nu_email d)) (users w) \<longrightarrow>
           action_add_user env req w =
             (Inr (Errors [(''email'', [''A user with this email already exists''])] 400),
              emit (DbRead (UserFindUniqueEmail (toLowerCase env (nu_email d)))) w0)
           \<and> (formData_get fd ''intent'' \<noteq> Some (FormString ''create-role'')
                \<and> formData_get fd ''intent'' \<noteq> Some (FormString ''delete-role'') \<longrightarrow>
              action_add_new_users env req w =
                (Inr (Errors [(''email'', [''A user with this email already exists''])] 400),
                 emit (DbRead (UserFindUniqueEmail (toLowerCase env (nu_email d)))) w0)))
        \<and> (\<forall>n. DbRead (UserFindUniqueUsername n) \<in> set (events (action_add_user env req) w)
              \<or> fst (action_add_user env req w)
                  = Inr (Errors [(''username'',
                      [''A user with this username already exists''])] 400)
              \<or> DbRead (UserFindUniqueUsername n)
                  \<in> set (events (action_add_new_users env req) w)
              \<or> fst (action_add_new_users env req w)
                  = Inr (Errors [(''username'',
                      [''A user with this username already exists''])] 400) \<longrightarrow>
            \<not> list_ex (\<lambda>u. user_email u = toLowerCase env (nu_email d)) (users w)))
     \<and> (\<forall>d. EditUserSchema_safeParse env (edit_rawData fd) = Inr d \<longrightarrow>
        (list_ex (\<lambda>u. user_email u = toLowerCase env (eu_email d) \<and> user_id u \<noteq> userId) (users w) \<longrightarrow>
           action_edit_user env req userId w =
             (Inr (Errors [(''email'', [''This email is already taken''])] 400),
              emit (DbRead (UserFindFirstEmail (toLowerCase env (eu_email d)) userId)) w0))
        \<and> (\<forall>n. DbRead (UserFindFirstUsername n userId)
                \<in> set (events (action_edit_user env req userId) w)
              \<or> fst (action_edit_user env req userId w)
                  = Inr (Errors [(''username'', [''This username is already taken''])] 400) \<longrightarrow>
            \<not> list_ex (\<lambda>u. user_email u = toLowerCase env (eu_email d) \<and> user_id u \<noteq> userId)
                 (users w)))"
proof (intro conjI allI impI)
  fix d
  assume "AddNewUserSchema_safeParse env (new_user_rawData fd) = Inr d"
    and "list_ex (\<lambda>u. user_email u = toLowerCase env (nu_email d)) (users w)"
  then show "action_add_user env req w =
      (Inr (Errors [(''email'', [''A user with this email already exists''])] 400),
       emit (DbRead (UserFindUniqueEmail (toLowerCase env (nu_email d)))) w0)"
    by (simp add: add_user_email_conflict [OF gate form] started)
next
  fix d
  assume "AddNewUserSchema_safeParse env (new_user_rawData fd) = Inr d"
    and "list_ex (\<lambda>u. user_email u = toLowerCase env (nu_email d)) (users w)"
    and "formData_get fd ''intent'' \<noteq> Some (FormString ''create-role'')
      \<and> formData_get fd ''intent'' \<noteq> Some (FormString ''delete-role'')"
  then show "action_add_new_users env req w =
      (Inr (Errors [(''email'', [''A user with this email already exists''])] 400),
       emit (DbRead (UserFindUniqueEmail (toLowerCase env (nu_email d)))) w0)"
    by (simp add: add_new_users_email_conflict [OF gate form] started)
next
  fix d n
  assume parse: "AddNewUserSchema_safeParse env (new_user_rawData fd) = Inr d"
    and checked: "DbRead (UserFindUniqueUsername n) \<in> set (events (action_add_user env req) w)
      \<or> fst (action_add_user env req w)
          = Inr (Errors [(''username'', [''A user with this username already exists''])] 400)
      \<or> DbRead (UserFindUniqueUsername n) \<in> set (events (action_add_new_users env req) w)
      \<or> fst (action_add_new_users env req w)
          = Inr (Errors [(''username'', [''A user with this username already exists''])] 400)"
  show "\<not> list_ex (\<lambda>u. user_email u = toLowerCase env (nu_email d)) (users w)"
  proof
    assume conflict: "list_ex (\<lambda>u. user_email u = toLowerCase env (nu_email d)) (users w)"
    have "\<not> (DbRead (UserFindUniqueUsername n) \<in> set (events (action_add_user env req) w)
      \<or> fst (action_add_user env req w)
          = Inr (Errors [(''username'', [''A user with this username already exists''])] 400))"
      by (simp add: add_user_email_conflict [OF gate form parse conflict] events_def trace_emit)
    with checked add_new_users_username_checked [OF gate form parse, of n] conflict
    show False by blast
  qed
next
  fix d
  assume "EditUserSchema_safeParse env (edit_rawData fd) = Inr d"
    and "list_ex (\<lambda>u. user_email u = toLowerCase env (eu_email d) \<and> user_id u \<noteq> userId) (users w)"
  then show "action_edit_user env req userId w =
      (Inr (Errors [(''email'', [''This email is already taken''])] 400),
       emit (DbRead (UserFindFirstEmail (toLowerCase env (eu_email d)) userId)) w0)"
    by (simp add: action_edit_user_run [OF gate form] started Let_def)
next
  fix d n
  assume parse: "EditUserSchema_safeParse env (edit_rawData fd) = Inr d"
    and checked: "DbRead (UserFindFirstUsername n userId)
        \<in> set (events (action_edit_user env req userId) w)
      \<or> fst (action_edit_user env req userId w)
          = Inr (Errors [(''username'', [''This username is already taken''])] 400)"
  show "\<not> list_ex (\<lambda>u. user_email u = toLowerCase env (eu_email d) \<and> user_id u \<noteq> userId) (users w)"
  proof
    assume "list_ex (\<lambda>u. user_email u = toLowerCase env (eu_email d) \<and> user_id u \<noteq> userId) (users w)"
    then show False
      using checked
      by (simp add: action_edit_user_run [OF gate form parse] Let_def events_def trace_emit)
  qed
qed

theorem email_conflict_ends_the_request_witness:
  "action_add_user demo_env (demo_request bob_user_form) bob_world =
     (Inr (Errors [(''email'', [''A user with this email already exists''])] 400),
      emit (DbRead (UserFindUniqueEmail ''a@b.com''))
        (emit ParseForm (emit (Authorize ''admin'') bob_world)))
   \<and> action_add_new_users demo_env (demo_request bob_user_form) bob_world =
     (Inr (Errors [(''email'', [''A user with this email already exists''])] 400),
      emit (DbRead (UserFindUniqueEmail ''a@b.com''))
        (emit ParseForm (emit (Authorize ''admin'') bob_world)))
   \<and> action_edit_user demo_env (demo_request takeover_form) ''u1'' bob_world =
     (Inr (Errors [(''email'', [''This email is already taken''])] 400),
      emit (DbRead (UserFindFirstEmail ''a@b.com'' ''u1''))
        (emit ParseForm (emit (Authorize ''admin'') bob_world)))"
  using email_conflict_ends_the_request [OF bob_world_gate demo_body refl,
      of bob_user_form "''u1''"]
    email_conflict_ends_the_request [OF bob_world_gate demo_body refl,
      of takeover_form "''u1''"]
  by (simp add: bob_user_parse takeover_parse lower_bob bob_world_users bob_intent
      root_user_def bob_user_def)

subsection \<open>The edit page\<close>

lemma collect_strings:
  "collect (map z_string (map js_of vs)) = Inr rs \<Longrightarrow> rs = map toString vs"
proof (induction vs arbitrary: rs)
  case Nil
  then show ?case by simp
next
  case (Cons v vs)
  then show ?case
    by (cases v) (auto split: sum.splits)
qed

lemma edit_parse_roles:
  assumes "EditUserSchema_safeParse env (edit_rawData fd) = Inr d"
  shows "eu_roles d = map toString (formData_getAll fd ''roles'')"
proof -
  from assms have "roles_rule (js_of_entries (formData_getAll fd ''roles'')) = Inr (eu_roles d)"
    by (auto simp: EditUserSchema_safeParse_def edit_rawData_def Let_def split: if_splits)
  then show ?thesis
    by (simp add: roles_rule_of_form collect_strings)
qed

lemma action_edit_user_denied:
  "requireUserWithRole env req ''admin'' (users w) = Inl t \<Longrightarrow>
   action_edit_user env req i w = (Inl t, emit (Authorize ''admin'') w)"
  by (simp add: action_edit_user_def await_authorize)

lemma action_edit_user_invalid:
  assumes "requireUserWithRole env req ''admin'' (users w) = Inr caller"
    and "body req = Some fd"
    and "EditUserSchema_safeParse env (edit_rawData fd) = Inl errs"
  shows "action_edit_user env req i w =
     (Inr (Errors errs 400), emit ParseForm (emit (Authorize ''admin'') w))"
  using assms by (simp add: action_edit_user_def await_authorize await_formData returns_def)

lemma list_ex_updated:
  "list_ex (\<lambda>u. user_id u = i)
     (map (\<lambda>x. if user_id x = i
               then x\<lparr>user_email := e, user_username := n, user_name := m, user_roles := r\<rparr>
               else x) xs)
   = list_ex (\<lambda>u. user_id u = i) xs"
  by (induction xs) simp_all

lemma updated_rows:
  "list_all (\<lambda>u. user_id u = i \<longrightarrow> user_roles u = r \<and> user_email u = e \<and> user_username u = n)
     (map (\<lambda>x. if user_id x = i
               then x\<lparr>user_email := e, user_username := n, user_name := m, user_roles := r\<rparr>
               else x) xs)"
  by (induction xs) simp_all

lemma updated_row:
  assumes "u \<in> set (map (\<lambda>x. if user_id x = i
               then x\<lparr>user_email := e, user_username := n, user_name := m, user_roles := r\<rparr>
               else x) xs)"
    and "user_id u = i"
  shows "user_roles u = r \<and> user_email u = e \<and> user_username u = n"
  using updated_rows [of i r e n m xs] assms unfolding list_all_iff by blast

lemma edit_success_users:
  assumes form: "body req = Some fd"
    and success: "action_edit_user env req i w = (Inr (Redirect ''/admin/all-users''), w')"
  shows "\<exists>d. EditUserSchema_safeParse env (edit_rawData fd) = Inr d
      \<and> list_ex (\<lambda>x. user_id x = i) (users w)
      \<and> \<not> list_ex (\<lambda>x. user_email x = toLowerCase env (eu_email d) \<and> user_id x \<noteq> i) (users w)
      \<and> \<not> list_ex (\<lambda>x. user_username x = toLowerCase env (eu_username d) \<and> user_id x \<noteq> i)
            (users w)
      \<and> users w' = map (\<lambda>x. if user_id x = i
                              then x\<lparr>user_email := toLowerCase env (eu_email d),
                                     user_username := toLowerCase env (eu_username d),
                                     user_name := Some (eu_name d),
                                     user_roles := remdups (eu_roles d)\<rparr>
                              else x) (users w)"
proof (cases "requireUserWithRole env req ''admin'' (users w)")
  case (Inl t)
  with success show ?thesis
    by (simp add: action_edit_user_denied)
next
  case gate: (Inr caller)
  show ?thesis
  proof (cases "EditUserSchema_safeParse env (edit_rawData fd)")
    case (Inl errs)
    with success show ?thesis
      by (simp add: action_edit_user_invalid [OF gate form])
  next
    case parse: (Inr d)
    note run = action_edit_user_run [OF gate form parse, of i, unfolded success Let_def]
    show ?thesis
    proof (cases "list_ex (\<lambda>x. user_email x = toLowerCase env (eu_email d) \<and> user_id x \<noteq> i)
        (users w)")
      case True
      with run show ?thesis by simp
    next
      case no_email: False
      show ?thesis
      proof (cases "list_ex (\<lambda>x. user_username x = toLowerCase env (eu_username d) \<and> user_id x \<noteq> i)
          (users w)")
        case True
        with run no_email show ?thesis by simp
      next
        case no_name: False
        show ?thesis
        proof (cases "list_ex (\<lambda>x. user_id x = i) (users w)")
          case False
          with run no_email no_name show ?thesis by simp
        next
          case target: True
          show ?thesis
          proof (cases "list_all (role_exists w) (eu_roles d)")
            case False
            with run no_email no_name target show ?thesis by simp
          next
            case True
            with run no_email no_name target
            have "w' =
              (emit (DbWrite (UserUpdate i))
                 (emit (DbRead (UserFindFirstUsername (toLowerCase env (eu_username d)) i))
                    (emit (DbRead (UserFindFirstEmail (toLowerCase env (eu_email d)) i))
                       (emit ParseForm (emit (Authorize ''admin'') w)))))
              \<lparr>users := map (\<lambda>x. if user_id x = i
                                    then x\<lparr>user_email := toLowerCase env (eu_email d),
                                           user_username := toLowerCase env (eu_username d),
                                           user_name := Some (eu_name d),
                                           user_roles := remdups (eu_roles d)\<rparr>
                                    else x) (users w)\<rparr>"
              by simp
            then have "users w' = map (\<lambda>x. if user_id x = i
                                    then x\<lparr>user_email := toLowerCase env (eu_email d),
                                           user_username := toLowerCase env (eu_username d),
                                           user_name := Some (eu_name d),
                                           user_roles := remdups (eu_roles d)\<rparr>
                                    else x) (users w)"
              by simp
            with parse no_email no_name target show ?thesis
              by blast
          qed
        qed
      qed
    qed
  qed
qed

text \<open>
  C6. After an edit that ended with the redirect to the listing, the target user
  exists and its role associations are, as a set, the role names submitted in the
  form, whatever they were before: no \<open>roles\<close> field leaves no association, the
  single value "admin" leaves the one association "admin".
\<close>

theorem edit_replaces_role_associations:
  assumes form: "body req = Some fd"
    and success: "action_edit_user env req userId w = (Inr (Redirect ''/admin/all-users''), w')"
  shows
    "list_ex (\<lambda>u. user_id u = userId) (users w')
     \<and> (\<forall>u \<in> set (users w'). user_id u = userId \<longrightarrow>
          set (user_roles u) = set (map toString (formData_getAll fd ''roles''))
          \<and> (formData_getAll fd ''roles'' = [] \<longrightarrow> user_roles u = [])
          \<and> (formData_getAll fd ''roles'' = [FormString ''admin''] \<longrightarrow>
               user_roles u = [''admin'']))"
proof -
  from edit_success_users [OF form success] obtain d where
    parse: "EditUserSchema_safeParse env (edit_rawData fd) = Inr d"
    and target: "list_ex (\<lambda>x. user_id x = userId) (users w)"
    and after: "users w' = map (\<lambda>x. if user_id x = userId
                              then x\<lparr>user_email := toLowerCase env (eu_email d),
                                     user_username := toLowerCase env (eu_username d),
                                     user_name := Some (eu_name d),
                                     user_roles := remdups (eu_roles d)\<rparr>
                              else x) (users w)"
    by blast
  have submitted: "eu_roles d = map toString (formData_getAll fd ''roles'')"
    by (rule edit_parse_roles [OF parse])
  from target have exists: "list_ex (\<lambda>u. user_id u = userId) (users w')"
    by (simp add: after list_ex_updated)
  have row: "user_roles u = remdups (map toString (formData_getAll fd ''roles''))"
    if u: "u \<in> set (users w')" and i: "user_id u = userId" for u
    using updated_row [OF u [unfolded after] i] by (simp add: submitted)
  show ?thesis
  proof (intro conjI ballI impI)
    show "list_ex (\<lambda>u. user_id u = userId) (users w')"
      by (rule exists)
  next
    fix u
    assume "u \<in> set (users w')" and "user_id u = userId"
    then show "set (user_roles u) = set (map toString (formData_getAll fd ''roles''))"
      by (simp add: row)
  next
    fix u
    assume "u \<in> set (users w')" and "user_id u = userId"
      and "formData_getAll fd ''roles'' = []"
    then show "user_roles u = []"
      by (simp add: row)
  next
    fix u
    assume "u \<in> set (users w')" and "user_id u = userId"
      and "formData_getAll fd ''roles'' = [FormString ''admin'']"
    then show "user_roles u = [''admin'']"
      by (simp add: row)
  qed
qed

lemma root_edited:
  "action_edit_user demo_env (demo_request root_form) ''u1'' demo_world =
     (Inr (Redirect ''/admin/all-users''),
      (emit (DbWrite (UserUpdate ''u1''))
         (emit (DbRead (UserFindFirstUsername ''root'' ''u1''))
            (emit (DbRead (UserFindFirstEmail ''root@b.com'' ''u1''))
               (emit ParseForm (emit (Authorize ''admin'') demo_world)))))
      \<lparr>users := [root_user\<lparr>user_email := ''root@b.com'', user_username := ''root'',
                            user_name := Some ''Root'', user_roles := []\<rparr>]\<rparr>)"
  by (simp add: action_edit_user_run [OF demo_gate demo_body root_parse] lower_bob
      demo_users Let_def root_user_def)

lemma promote_parse:
  "EditUserSchema_safeParse demo_env (edit_rawData promote_form) =
     Inr \<lparr>eu_email = ''a@b.com'', eu_username = ''bob'', eu_name = ''Bob B'',
          eu_roles = [''admin'']\<rparr>"
  by (simp add: EditUserSchema_safeParse_def edit_rawData_def
      promote_form_def formData_get_def formData_getAll_def demo_env_def z_min_def name_rule_def
      roles_rule_def z_default_def js_of_entries_def)

lemma bob_promoted:
  "action_edit_user demo_env (demo_request promote_form) ''u2'' bob_world =
     (Inr (Redirect ''/admin/all-users''),
      (emit (DbWrite (UserUpdate ''u2''))
         (emit (DbRead (UserFindFirstUsername ''bob'' ''u2''))
            (emit (DbRead (UserFindFirstEmail ''a@b.com'' ''u2''))
               (emit ParseForm (emit (Authorize ''admin'') bob_world)))))
      \<lparr>users := [root_user, bob_user\<lparr>user_roles := [''admin'']\<rparr>]\<rparr>)"
proof -
  have same: "toLowerCase demo_env ''a@b.com'' = ''a@b.com''" "toLowerCase demo_env ''bob'' = ''bob''"
    by (simp_all add: demo_fold ascii_lower_def lower_char_def)
  note run = action_edit_user_run [OF bob_world_gate demo_body promote_parse, of "''u2''"]
  show ?thesis
    apply (subst run)
    apply (simp only: Let_def same bob_world_users)
    apply (simp add: root_user_def bob_user_def bob_world_role_exists same)
    done
qed

theorem edit_replaces_role_associations_witness:
  "map (\<lambda>u. (user_id u, user_roles u))
     (users (snd (action_edit_user demo_env (demo_request root_form) ''u1'' demo_world)))
     = [(''u1'', [])]
   \<and> map (\<lambda>u. (user_id u, user_roles u))
     (users (snd (action_edit_user demo_env (demo_request promote_form) ''u2'' bob_world)))
     = [(''u1'', [''admin'']), (''u2'', [''admin''])]"
proof -
  have none: "formData_getAll root_form ''roles'' = []"
    and one: "formData_getAll promote_form ''roles'' = [FormString ''admin'']"
    by (simp_all add: root_form_def promote_form_def formData_getAll_def)
  have first: "map (\<lambda>u. (user_id u, user_roles u))
     (users (snd (action_edit_user demo_env (demo_request root_form) ''u1'' demo_world)))
     = [(''u1'', [])]"
    using edit_replaces_role_associations [OF demo_body root_edited] none
    by (simp add: root_edited root_user_def)
  have second: "map (\<lambda>u. (user_id u, user_roles u))
     (users (snd (action_edit_user demo_env (demo_request promote_form) ''u2'' bob_world)))
     = [(''u1'', [''admin'']), (''u2'', [''admin''])]"
    using edit_replaces_role_associations [OF demo_body bob_promoted] one
    by (simp add: bob_promoted root_user_def bob_user_def)
  show ?thesis
    using first second by (rule conjI)
qed

text \<open>
  C9. A load of the edit page that has passed the gate, for an identifier that no
  user has: the loader throws the response 404 "Not Found" after the two reads, and so
  returns neither a user nor the roles to the form.
\<close>

theorem edit_loader_unknown_user:
  assumes gate: "requireUserWithRole env req ''admin'' (users w) = Inr caller"
    and unknown: "\<not> list_ex (\<lambda>u. user_id u = userId) (users w)"
  shows "loader_edit_user env req userId w =
     (Inl (Response 404 ''Not Found''),
      emit (DbRead (UserFindUniqueId userId))
        (emit (DbRead RoleFindMany) (emit (Authorize ''admin'') w)))"
proof -
  have "loader_edit_user env req userId w =
      await prisma_role_findMany (\<lambda>availableRoles.
        await (prisma_user_findUnique_id userId) (\<lambda>found.
          case found of
            None \<Rightarrow> throws (Response 404 ''Not Found'')
          | Some u \<Rightarrow> returns (summary u, availableRoles)))
        (emit (Authorize ''admin'') w)"
    using gate by (simp add: loader_edit_user_def await_authorize)
  moreover from unknown have "find (\<lambda>u. user_id u = userId) (users w) = None"
    by (simp add: found_None_iff)
  ultimately show ?thesis
    by (simp add: await_def prisma_role_findMany_def prisma_user_findUnique_id_def throws_def
        users_emit)
qed

theorem edit_loader_unknown_user_witness:
  "loader_edit_user demo_env (demo_request []) ''nobody'' demo_world =
     (Inl (Response 404 ''Not Found''),
      emit (DbRead (UserFindUniqueId ''nobody''))
        (emit (DbRead RoleFindMany) (emit (Authorize ''admin'') demo_world)))"
  using edit_loader_unknown_user [OF demo_gate, where userId = "''nobody''" and fd1 = "[]"]
  by (simp add: demo_users root_user_def)

subsection \<open>The authorization gate\<close>

lemma extendsI: "(\<And>w. \<exists>es. trace (snd (h w)) = trace w @ es) \<Longrightarrow> extends h"
proof -
  assume grows: "\<And>w. \<exists>es. trace (snd (h w)) = trace w @ es"
  show "extends h"
    unfolding extends_def
  proof
    fix w
    from grows [of w] obtain es where "trace (snd (h w)) = trace w @ es" ..
    then show "take (length (trace w)) (trace (snd (h w))) = trace w"
      by simp
  qed
qed

lemma extendsD:
  assumes "extends h"
  shows "\<exists>es. trace (snd (h w)) = trace w @ es"
proof -
  from assms have "take (length (trace w)) (trace (snd (h w))) = trace w"
    by (simp add: extends_def)
  then have "trace (snd (h w)) = trace w @ drop (length (trace w)) (trace (snd (h w)))"
    by (metis append_take_drop_id)
  then show ?thesis ..
qed

lemma extends_returns: "extends (returns v)"
  by (rule extendsI) (simp add: returns_def)

lemma extends_throws: "extends (throws t)"
  by (rule extendsI) (simp add: throws_def)

lemma extends_await:
  assumes first: "extends m"
    and rest: "\<And>x. extends (k x)"
  shows "extends (await m k)"
proof (rule extendsI)
  fix w
  from extendsD [OF first, of w] obtain es where m: "trace (snd (m w)) = trace w @ es" ..
  show "\<exists>es. trace (snd (await m k w)) = trace w @ es"
  proof (cases "m w")
    case (Pair r w1)
    with m have w1: "trace w1 = trace w @ es"
      by simp
    show ?thesis
    proof (cases r)
      case (Inl t)
      with Pair w1 show ?thesis
        by (simp add: await_def)
    next
      case (Inr x)
      from extendsD [OF rest, of x w1] obtain es' where
        "trace (snd (k x w1)) = trace w1 @ es'" ..
      with Pair Inr w1 show ?thesis
        by (simp add: await_def)
    qed
  qed
qed

lemma extends_if: "extends a \<Longrightarrow> extends b \<Longrightarrow> extends (if c then a else b)"
  by simp

lemma extends_authorize: "extends (authorize env req role)"
  by (rule extendsI) (simp add: authorize_def trace_emit)

lemma extends_formData: "extends (request_formData req)"
  by (rule extendsI) (simp add: request_formData_def trace_emit split: option.splits)

lemma extends_reads:
  "extends prisma_role_findMany"
  "extends (prisma_role_findUnique n)"
  "extends prisma_user_findMany"
  "extends (prisma_user_findUnique_id i)"
  "extends (prisma_user_findUnique_email e)"
  "extends (prisma_user_findUnique_username n)"
  "extends (prisma_user_findFirst_email e i)"
  "extends (prisma_user_findFirst_username n i)"
  by (rule extendsI, simp add: prisma_role_findMany_def prisma_role_findUnique_def
      prisma_user_findMany_def prisma_user_findUnique_id_def prisma_user_findUnique_email_def
      prisma_user_findUnique_username_def prisma_user_findFirst_email_def
      prisma_user_findFirst_username_def trace_emit)+

lemma extends_writes:
  "extends (prisma_role_create n)"
  "extends (prisma_role_delete n)"
  "extends (prisma_user_create env e u m h rs)"
  "extends (prisma_user_update i e u m rs)"
  by (rule extendsI, simp add: prisma_role_create_def prisma_role_delete_def
      prisma_user_create_def prisma_user_update_def trace_emit Let_def)+

lemma extends_create_role_intent: "extends (create_role_intent env fd)"
  unfolding create_role_intent_def
  by (simp add: extends_await extends_reads extends_writes extends_returns
      split: option.splits)

lemma extends_delete_role_intent: "extends (delete_role_intent fd)"
  unfolding delete_role_intent_def
  by (simp add: extends_await extends_writes extends_returns split: option.splits)

lemma extends_create_user: "extends finish \<Longrightarrow> extends (create_user env fd finish)"
  unfolding create_user_def
  by (simp add: extends_await extends_reads extends_writes extends_returns
      split: sum.splits)

lemma first_event:
  assumes "\<And>caller. extends (k caller)"
  shows "take 1 (events (await (authorize env req role) k) w) = [Authorize role]"
proof (cases "requireUserWithRole env req role (users w)")
  case (Inl t)
  then show ?thesis
    by (simp add: events_def await_authorize trace_emit)
next
  case (Inr caller)
  from extendsD [OF assms, of caller "emit (Authorize role) w"] obtain es where
    "trace (snd (k caller (emit (Authorize role) w))) = trace w @ Authorize role # es"
    by (auto simp: trace_emit)
  with Inr show ?thesis
    by (simp add: events_def await_authorize)
qed

text \<open>
  C8. Every handler calls the gate first: the first entry a run adds to the log is
  the authorization for the role "admin", before the form is parsed and before any
  read or write of the store. When the gate rejects the caller, the handler ends with
  the gate's failure, and the store after the request is the store before it with
  that one log entry: no form parsing, no read, no write.
\<close>

theorem gate_precedes_all_data_access:
  "(\<forall>t. requireUserWithRole env req ''admin'' (users w) = Inl t \<longrightarrow>
      loader_all_users env req w = (Inl t, emit (Authorize ''admin'') w)
      \<and> loader_add_new_users env req w = (Inl t, emit (Authorize ''admin'') w)
      \<and> action_add_new_users env req w = (Inl t, emit (Authorize ''admin'') w)
      \<and> loader_add_user env req w = (Inl t, emit (Authorize ''admin'') w)
      \<and> action_add_user env req w = (Inl t, emit (Authorize ''admin'') w)
      \<and> loader_edit_user env req userId w = (Inl t, emit (Authorize ''admin'') w)
      \<and> action_edit_user env req userId w = (Inl t, emit (Authorize ''admin'') w))
   \<and> take 1 (events (loader_all_users env req) w) = [Authorize ''admin'']
   \<and> take 1 (events (loader_add_new_users env req) w) = [Authorize ''admin'']
   \<and> take 1 (events (action_add_new_users env req) w) = [Authorize ''admin'']
   \<and> take 1 (events (loader_add_user env req) w) = [Authorize ''admin'']
   \<and> take 1 (events (action_add_user env req) w) = [Authorize ''admin'']
   \<and> take 1 (events (loader_edit_user env req userId) w) = [Authorize ''admin'']
   \<and> take 1 (events (action_edit_user env req userId) w) = [Authorize ''admin'']"
proof -
  have denied: "loader_all_users env req w = (Inl t, emit (Authorize ''admin'') w)
      \<and> loader_add_new_users env req w = (Inl t, emit (Authorize ''admin'') w)
      \<and> action_add_new_users env req w = (Inl t, emit (Authorize ''admin'') w)
      \<and> loader_add_user env req w = (Inl t, emit (Authorize ''admin'') w)
      \<and> action_add_user env req w = (Inl t, emit (Authorize ''admin'') w)
      \<and> loader_edit_user env req userId w = (Inl t, emit (Authorize ''admin'') w)
      \<and> action_edit_user env req userId w = (Inl t, emit (Authorize ''admin'') w)"
    if "requireUserWithRole env req ''admin'' (users w) = Inl t" for t
    using that
    by (simp add: loader_all_users_def loader_add_new_users_def action_add_new_users_def
        loader_add_user_def action_add_user_def loader_edit_user_def action_edit_user_def
        await_authorize)
  have listing: "take 1 (events (loader_all_users env req) w) = [Authorize ''admin'']"
    unfolding loader_all_users_def
    by (rule first_event) (simp add: extends_await extends_reads extends_returns)
  have roles_page: "take 1 (events (loader_add_new_users env req) w) = [Authorize ''admin'']"
    unfolding loader_add_new_users_def
    by (rule first_event) (simp add: extends_await extends_reads extends_returns)
  have intents: "take 1 (events (action_add_new_users env req) w) = [Authorize ''admin'']"
    unfolding action_add_new_users_def
    by (rule first_event)
      (simp add: extends_await extends_formData extends_create_role_intent
        extends_delete_role_intent extends_create_user extends_returns)
  have page: "take 1 (events (loader_add_user env req) w) = [Authorize ''admin'']"
    unfolding loader_add_user_def
    by (rule first_event) (simp add: extends_returns)
  have creation: "take 1 (events (action_add_user env req) w) = [Authorize ''admin'']"
    unfolding action_add_user_def
    by (rule first_event)
      (simp add: extends_await extends_formData extends_create_user extends_returns)
  have edit_page: "take 1 (events (loader_edit_user env req userId) w) = [Authorize ''admin'']"
    unfolding loader_edit_user_def
    by (rule first_event)
      (simp add: extends_await extends_reads extends_returns extends_throws
        split: option.splits)
  have edit: "take 1 (events (action_edit_user env req userId) w) = [Authorize ''admin'']"
    unfolding action_edit_user_def
    by (rule first_event)
      (simp add: extends_await extends_formData extends_reads extends_writes extends_returns
        split: sum.splits)
  from denied listing roles_page intents page creation edit_page edit show ?thesis
    by blast
qed

theorem gate_precedes_all_data_access_witness:
  "action_edit_user demo_env \<lparr>session = ''u2'', body = Some promote_form\<rparr> ''u2'' bob_world
     = (Inl (Response 403 ''Forbidden''), emit (Authorize ''admin'') bob_world)
   \<and> loader_all_users demo_env \<lparr>session = ''nobody'', body = None\<rparr> demo_world
     = (Inl (Response 302 ''/login''), emit (Authorize ''admin'') demo_world)
   \<and> take 1 (events (action_add_new_users demo_env (demo_request bob_user_form)) demo_world)
     = [Authorize ''admin'']"
proof -
  have bob: "requireUserWithRole demo_env \<lparr>session = ''u2'', body = Some promote_form\<rparr>
      ''admin'' (users bob_world) = Inl (Response 403 ''Forbidden'')"
    by (simp add: demo_env_def bob_world_users root_user_def bob_user_def)
  have nobody: "requireUserWithRole demo_env \<lparr>session = ''nobody'', body = None\<rparr>
      ''admin'' (users demo_world) = Inl (Response 302 ''/login'')"
    by (simp add: demo_env_def demo_users root_user_def)
  show ?thesis
    using gate_precedes_all_data_access
        [of demo_env "\<lparr>session = ''u2'', body = Some promote_form\<rparr>" bob_world "''u2''"]
      gate_precedes_all_data_access
        [of demo_env "\<lparr>session = ''nobody'', body = None\<rparr>" demo_world "''u2''"]
      gate_precedes_all_data_access
        [of demo_env "demo_request bob_user_form" demo_world "''u2''"]
    by (simp add: bob nobody)
qed

subsection \<open>The invariant of the user table\<close>

lemma store_ok_emit: "store_ok env (emit e w) = store_ok env w"
  by (simp add: store_ok_def users_emit)

lemma store_ok_same_users: "users w' = users w \<Longrightarrow> store_ok env w' = store_ok env w"
  by (simp add: store_ok_def)

lemma normalized_map:
  assumes "normalized_rows env us"
  shows "map (\<lambda>u. toLowerCase env (user_email u)) us = map user_email us"
    and "map (\<lambda>u. toLowerCase env (user_username u)) us = map user_username us"
proof -
  from assms have each: "toLowerCase env (user_email u) = user_email u"
    "toLowerCase env (user_username u) = user_username u" if "u \<in> set us" for u
    using that by (simp_all add: normalized_rows_def list_all_iff)
  show "map (\<lambda>u. toLowerCase env (user_email u)) us = map user_email us"
    by (rule map_cong [OF refl]) (rule each)
  show "map (\<lambda>u. toLowerCase env (user_username u)) us = map user_username us"
    by (rule map_cong [OF refl]) (rule each)
qed

lemma store_ok_case_insensitive: "store_ok env w \<Longrightarrow> case_insensitive_unique env w"
  by (simp add: store_ok_def case_insensitive_unique_def unique_rows_def normalized_map)

lemma normalized_conflict:
  assumes "normalized_rows env us"
    and "u \<in> set us"
    and "toLowerCase env (user_email u) = toLowerCase env s"
  shows "list_ex (\<lambda>x. user_email x = toLowerCase env s) us"
proof -
  from assms(1,2) have "toLowerCase env (user_email u) = user_email u"
    by (simp add: normalized_rows_def list_all_iff)
  with assms(3) have "user_email u = toLowerCase env s"
    by simp
  with assms(2) show ?thesis
    unfolding list_ex_iff by blast
qed

lemma roles_only_keys:
  "map user_id (map (\<lambda>u. u\<lparr>user_roles := g u\<rparr>) us) = map user_id us"
  "map user_email (map (\<lambda>u. u\<lparr>user_roles := g u\<rparr>) us) = map user_email us"
  "map user_username (map (\<lambda>u. u\<lparr>user_roles := g u\<rparr>) us) = map user_username us"
  by (induction us) simp_all

lemma roles_only_normalized:
  "normalized_rows env (map (\<lambda>u. u\<lparr>user_roles := g u\<rparr>) us) = normalized_rows env us"
  by (simp add: normalized_rows_def list.pred_map comp_def)

lemma appended_ok:
  assumes "normalized_rows env us" and "unique_rows us"
    and "\<not> list_ex (\<lambda>x. user_id x = i \<or> user_email x = toLowerCase env e
                     \<or> user_username x = toLowerCase env n) us"
    and "idempotent_fold env"
  shows "normalized_rows env (us @
           [\<lparr>user_id = i, user_email = toLowerCase env e, user_username = toLowerCase env n,
             user_name = m, user_password = p, user_roles = r, user_createdAt = t\<rparr>])
       \<and> unique_rows (us @
           [\<lparr>user_id = i, user_email = toLowerCase env e, user_username = toLowerCase env n,
             user_name = m, user_password = p, user_roles = r, user_createdAt = t\<rparr>])"
proof -
  from assms(3) have none: "\<forall>x \<in> set us. user_id x \<noteq> i \<and> user_email x \<noteq> toLowerCase env e
      \<and> user_username x \<noteq> toLowerCase env n"
    unfolding list_ex_iff by simp
  have "i \<notin> user_id ` set us"
    using none by (simp add: image_iff) metis
  moreover have "toLowerCase env e \<notin> user_email ` set us"
    using none by (simp add: image_iff) metis
  moreover have "toLowerCase env n \<notin> user_username ` set us"
    using none by (simp add: image_iff) metis
  ultimately show ?thesis
    using assms(1,2)
    by (simp add: normalized_rows_def unique_rows_def fold_twice [OF assms(4)])
qed

lemma distinct_updated:
  assumes "distinct (map user_id xs)" and "distinct (map key xs)"
    and "\<not> list_ex (\<lambda>x. key x = k \<and> user_id x \<noteq> i) xs"
  shows "distinct (map (\<lambda>x. if user_id x = i then k else key x) xs)"
  using assms
proof (induction xs)
  case Nil
  then show ?case by simp
next
  case (Cons a xs)
  then have rest: "distinct (map (\<lambda>x. if user_id x = i then k else key x) xs)"
    by simp
  from Cons.prems have ids: "\<forall>x \<in> set xs. user_id a \<noteq> user_id x"
    and keys: "\<forall>x \<in> set xs. key a \<noteq> key x"
    by (simp_all add: image_iff)
  from Cons.prems(3) have others: "\<forall>x \<in> set xs. \<not> (key x = k \<and> user_id x \<noteq> i)"
    and head: "\<not> (key a = k \<and> user_id a \<noteq> i)"
    unfolding list_ex_iff by simp_all
  have "(if user_id a = i then k else key a)
      \<notin> (\<lambda>x. if user_id x = i then k else key x) ` set xs"
  proof
    assume "(if user_id a = i then k else key a)
      \<in> (\<lambda>x. if user_id x = i then k else key x) ` set xs"
    then obtain x where x: "x \<in> set xs"
      and same: "(if user_id a = i then k else key a) = (if user_id x = i then k else key x)"
      by (rule imageE)
    from x ids keys others have "user_id a \<noteq> user_id x" "key a \<noteq> key x"
      "\<not> (key x = k \<and> user_id x \<noteq> i)"
      by simp_all
    with same head show False
      by (cases "user_id a = i"; cases "user_id x = i") simp_all
  qed
  with rest show ?case
    by simp
qed

lemma updated_keys:
  "map user_id (map (\<lambda>x. if user_id x = i
       then x\<lparr>user_email := e, user_username := n, user_name := m, user_roles := r\<rparr>
       else x) xs) = map user_id xs"
  "map user_email (map (\<lambda>x. if user_id x = i
       then x\<lparr>user_email := e, user_username := n, user_name := m, user_roles := r\<rparr>
       else x) xs) = map (\<lambda>x. if user_id x = i then e else user_email x) xs"
  "map user_username (map (\<lambda>x. if user_id x = i
       then x\<lparr>user_email := e, user_username := n, user_name := m, user_roles := r\<rparr>
       else x) xs) = map (\<lambda>x. if user_id x = i then n else user_username x) xs"
  by (induction xs) simp_all

lemma updated_normalized:
  assumes "normalized_rows env xs" and "idempotent_fold env"
  shows "normalized_rows env (map (\<lambda>x. if user_id x = i
       then x\<lparr>user_email := toLowerCase env e, user_username := toLowerCase env n, user_name := m,
              user_roles := r\<rparr>
       else x) xs)"
  using assms(1)
  unfolding normalized_rows_def list.pred_map
  unfolding list_all_iff comp_def
  by (simp add: fold_twice [OF assms(2)])

lemma updated_ok:
  assumes "normalized_rows env xs" and "unique_rows xs"
    and "\<not> list_ex (\<lambda>x. user_email x = toLowerCase env e \<and> user_id x \<noteq> i) xs"
    and "\<not> list_ex (\<lambda>x. user_username x = toLowerCase env n \<and> user_id x \<noteq> i) xs"
    and "idempotent_fold env"
  shows "normalized_rows env (map (\<lambda>x. if user_id x = i
       then x\<lparr>user_email := toLowerCase env e, user_username := toLowerCase env n, user_name := m,
              user_roles := r\<rparr>
       else x) xs)
     \<and> unique_rows (map (\<lambda>x. if user_id x = i
       then x\<lparr>user_email := toLowerCase env e, user_username := toLowerCase env n, user_name := m,
              user_roles := r\<rparr>
       else x) xs)"
proof -
  from assms(2) have ids: "distinct (map user_id xs)"
    and emails: "distinct (map user_email xs)"
    and names: "distinct (map user_username xs)"
    by (simp_all add: unique_rows_def)
  have unique: "unique_rows (map (\<lambda>x. if user_id x = i
       then x\<lparr>user_email := toLowerCase env e, user_username := toLowerCase env n, user_name := m,
              user_roles := r\<rparr>
       else x) xs)"
    unfolding unique_rows_def updated_keys
    using ids distinct_updated [OF ids emails assms(3)] distinct_updated [OF ids names assms(4)]
    by (intro conjI)
  show ?thesis
    using updated_normalized [OF assms(1) assms(5),
        where i = i and e = e and n = n and m = m and r = r]
      unique by (rule conjI)
qed

subsection \<open>The handlers keep the invariant\<close>

lemma roles_only_unique:
  "unique_rows (map (\<lambda>u. u\<lparr>user_roles := g u\<rparr>) us) = unique_rows us"
  by (simp only: unique_rows_def roles_only_keys)

lemma store_ok_create_role: "store_ok env (snd (create_role_intent env fd w)) = store_ok env w"
  by (simp add: create_role_intent_run store_ok_def users_emit split: option.splits)

lemma store_ok_delete_role: "store_ok env (snd (delete_role_intent fd w)) = store_ok env w"
  by (simp add: delete_role_intent_run store_ok_def users_emit roles_only_unique
      roles_only_normalized split: option.splits)

lemma create_user_outcome:
  assumes "AddNewUserSchema_safeParse env (new_user_rawData fd) = Inr d"
  shows "create_user env fd (returns v) w =
     (if list_ex (\<lambda>x. user_email x = toLowerCase env (nu_email d)) (users w)
      then (Inr (Errors [(''email'', [''A user with this email already exists''])] 400),
            emit (DbRead (UserFindUniqueEmail (toLowerCase env (nu_email d)))) w)
      else if list_ex (\<lambda>x. user_username x = toLowerCase env (nu_username d)) (users w)
      then (Inr (Errors [(''username'', [''A user with this username already exists''])] 400),
            emit (DbRead (UserFindUniqueUsername (toLowerCase env (nu_username d))))
              (emit (DbRead (UserFindUniqueEmail (toLowerCase env (nu_email d)))) w))
      else if list_ex (\<lambda>x. user_id x = cuid env \<or> user_email x = toLowerCase env (nu_email d)
                          \<or> user_username x = toLowerCase env (nu_username d)) (users w)
      then (Inl (PrismaError ''P2002''),
            emit (DbWrite (UserCreate (toLowerCase env (nu_email d)) (toLowerCase env (nu_username d))))
              (emit (DbRead (UserFindUniqueUsername (toLowerCase env (nu_username d))))
                 (emit (DbRead (UserFindUniqueEmail (toLowerCase env (nu_email d)))) w)))
      else if list_all (role_exists w) (nu_roles d)
      then (Inr v,
            (emit (DbWrite (UserCreate (toLowerCase env (nu_email d)) (toLowerCase env (nu_username d))))
               (emit (DbRead (UserFindUniqueUsername (toLowerCase env (nu_username d))))
                  (emit (DbRead (UserFindUniqueEmail (toLowerCase env (nu_email d)))) w)))
            \<lparr>users := users w @
               [\<lparr>user_id = cuid env, user_email = toLowerCase env (nu_email d),
                 user_username = toLowerCase env (nu_username d), user_name = Some (nu_name d),
                 user_password = Some (getPasswordHash env (nu_password d)),
                 user_roles = remdups (nu_roles d), user_createdAt = now env\<rparr>]\<rparr>)
      else (Inl (PrismaError ''P2025''),
            emit (DbWrite (UserCreate (toLowerCase env (nu_email d)) (toLowerCase env (nu_username d))))
              (emit (DbRead (UserFindUniqueUsername (toLowerCase env (nu_username d))))
                 (emit (DbRead (UserFindUniqueEmail (toLowerCase env (nu_email d)))) w))))"
  by (simp add: create_user_run [OF assms] prisma_user_create_run users_emit role_exists_emit)

lemma store_ok_create_user:
  assumes ok: "store_ok env w"
    and idem: "idempotent_fold env"
  shows "store_ok env (snd (create_user env fd (returns v) w))"
proof (cases "AddNewUserSchema_safeParse env (new_user_rawData fd)")
  case (Inl errs)
  with ok show ?thesis
    by (simp add: create_user_invalid)
next
  case (Inr d)
  from ok have rows: "normalized_rows env (users w)" "unique_rows (users w)"
    by (simp_all add: store_ok_def)
  show ?thesis
  proof (cases "list_ex (\<lambda>x. user_id x = cuid env \<or> user_email x = toLowerCase env (nu_email d)
                          \<or> user_username x = toLowerCase env (nu_username d)) (users w)")
    case True
    with ok show ?thesis
      by (simp add: create_user_outcome [OF Inr] store_ok_emit)
  next
    case False
    from appended_ok [OF rows False idem] ok show ?thesis
      by (simp add: create_user_outcome [OF Inr] store_ok_emit False) (simp add: store_ok_def)
  qed
qed

lemma create_user_success:
  assumes parse: "AddNewUserSchema_safeParse env (new_user_rawData fd) = Inr d"
    and run: "create_user env fd (returns v) w = (Inr v, w')"
    and proper: "\<not> is_errors v"
  shows "users w' = users w @
     [\<lparr>user_id = cuid env, user_email = toLowerCase env (nu_email d),
       user_username = toLowerCase env (nu_username d), user_name = Some (nu_name d),
       user_password = Some (getPasswordHash env (nu_password d)),
       user_roles = remdups (nu_roles d), user_createdAt = now env\<rparr>]"
proof -
  note out = create_user_outcome [OF parse, of v w, unfolded run]
  show ?thesis
  proof (cases "list_ex (\<lambda>x. user_email x = toLowerCase env (nu_email d)) (users w)")
    case True
    with out have "v = Errors [(''email'', [''A user with this email already exists''])] 400"
      by simp
    with proper show ?thesis by simp
  next
    case no_email: False
    show ?thesis
    proof (cases "list_ex (\<lambda>x. user_username x = toLowerCase env (nu_username d)) (users w)")
      case True
      with out no_email
      have "v = Errors [(''username'', [''A user with this username already exists''])] 400"
        by simp
      with proper show ?thesis by simp
    next
      case no_name: False
      show ?thesis
      proof (cases "list_ex (\<lambda>x. user_id x = cuid env \<or> user_email x = toLowerCase env (nu_email d)
                          \<or> user_username x = toLowerCase env (nu_username d)) (users w)")
        case True
        with out no_email no_name show ?thesis by simp
      next
        case fresh: False
        show ?thesis
        proof (cases "list_all (role_exists w) (nu_roles d)")
          case False
          with out no_email no_name fresh show ?thesis by simp
        next
          case True
          with out no_email no_name fresh have "w' =
            (emit (DbWrite (UserCreate (toLowerCase env (nu_email d)) (toLowerCase env (nu_username d))))
               (emit (DbRead (UserFindUniqueUsername (toLowerCase env (nu_username d))))
                  (emit (DbRead (UserFindUniqueEmail (toLowerCase env (nu_email d)))) w)))
            \<lparr>users := users w @
               [\<lparr>user_id = cuid env, user_email = toLowerCase env (nu_email d),
                 user_username = toLowerCase env (nu_username d), user_name = Some (nu_name d),
                 user_password = Some (getPasswordHash env (nu_password d)),
                 user_roles = remdups (nu_roles d), user_createdAt = now env\<rparr>]\<rparr>"
            by simp
          then show ?thesis by simp
        qed
      qed
    qed
  qed
qed

lemma action_add_user_denied:
  "requireUserWithRole env req ''admin'' (users w) = Inl t \<Longrightarrow>
   action_add_user env req w = (Inl t, emit (Authorize ''admin'') w)"
  by (simp add: action_add_user_def await_authorize)

lemma action_add_new_users_denied:
  "requireUserWithRole env req ''admin'' (users w) = Inl t \<Longrightarrow>
   action_add_new_users env req w = (Inl t, emit (Authorize ''admin'') w)"
  by (simp add: action_add_new_users_def await_authorize)

lemma actions_without_form:
  assumes "requireUserWithRole env req ''admin'' (users w) = Inr caller"
    and "body req = None"
  shows "snd (action_add_user env req w) = emit ParseForm (emit (Authorize ''admin'') w)"
    and "snd (action_add_new_users env req w) = emit ParseForm (emit (Authorize ''admin'') w)"
    and "snd (action_edit_user env req i w) = emit ParseForm (emit (Authorize ''admin'') w)"
  using assms
  by (simp_all add: action_add_user_def action_add_new_users_def action_edit_user_def
      await_authorize await_formData)

lemma store_ok_action_add_user:
  assumes ok: "store_ok env w"
    and idem: "idempotent_fold env"
  shows "store_ok env (snd (action_add_user env req w))"
proof (cases "requireUserWithRole env req ''admin'' (users w)")
  case (Inl t)
  with ok show ?thesis
    by (simp add: action_add_user_denied store_ok_emit)
next
  case gate: (Inr caller)
  show ?thesis
  proof (cases "body req")
    case None
    with ok show ?thesis
      by (simp add: actions_without_form [OF gate] store_ok_emit)
  next
    case (Some fd)
    from ok have "store_ok env (emit ParseForm (emit (Authorize ''admin'') w))"
      by (simp add: store_ok_emit)
    then show ?thesis
      by (simp add: action_add_user_passed [OF gate Some] store_ok_create_user idem)
  qed
qed

lemma store_ok_action_add_new_users:
  assumes ok: "store_ok env w"
    and idem: "idempotent_fold env"
  shows "store_ok env (snd (action_add_new_users env req w))"
proof (cases "requireUserWithRole env req ''admin'' (users w)")
  case (Inl t)
  with ok show ?thesis
    by (simp add: action_add_new_users_denied store_ok_emit)
next
  case gate: (Inr caller)
  show ?thesis
  proof (cases "body req")
    case None
    with ok show ?thesis
      by (simp add: actions_without_form [OF gate] store_ok_emit)
  next
    case (Some fd)
    from ok have "store_ok env (emit ParseForm (emit (Authorize ''admin'') w))"
      by (simp add: store_ok_emit)
    then show ?thesis
      by (simp add: action_add_new_users_passed [OF gate Some] store_ok_create_user
          store_ok_create_role store_ok_delete_role idem)
  qed
qed

lemma store_ok_action_edit_user:
  assumes ok: "store_ok env w"
    and idem: "idempotent_fold env"
  shows "store_ok env (snd (action_edit_user env req i w))"
proof (cases "requireUserWithRole env req ''admin'' (users w)")
  case (Inl t)
  with ok show ?thesis
    by (simp add: action_edit_user_denied store_ok_emit)
next
  case gate: (Inr caller)
  show ?thesis
  proof (cases "body req")
    case None
    with ok show ?thesis
      by (simp add: actions_without_form [OF gate] store_ok_emit)
  next
    case form: (Some fd)
    show ?thesis
    proof (cases "EditUserSchema_safeParse env (edit_rawData fd)")
      case (Inl errs)
      with ok show ?thesis
        by (simp add: action_edit_user_invalid [OF gate form] store_ok_emit)
    next
      case parse: (Inr d)
      from ok have rows: "normalized_rows env (users w)" "unique_rows (users w)"
        by (simp_all add: store_ok_def)
      show ?thesis
      proof (cases "list_ex (\<lambda>x. user_email x = toLowerCase env (eu_email d) \<and> user_id x \<noteq> i)
          (users w)
        \<or> list_ex (\<lambda>x. user_username x = toLowerCase env (eu_username d) \<and> user_id x \<noteq> i)
          (users w)")
        case True
        with ok show ?thesis
          by (auto simp: action_edit_user_run [OF gate form parse] Let_def store_ok_emit)
      next
        case False
        then have free: "\<not> list_ex (\<lambda>x. user_email x = toLowerCase env (eu_email d) \<and> user_id x \<noteq> i)
            (users w)"
          "\<not> list_ex (\<lambda>x. user_username x = toLowerCase env (eu_username d) \<and> user_id x \<noteq> i)
            (users w)"
          by simp_all
        from updated_ok [OF rows free idem] ok free show ?thesis
          by (simp add: action_edit_user_run [OF gate form parse] Let_def store_ok_emit)
            (simp add: store_ok_def)
      qed
    qed
  qed
qed

lemma role_intents_return:
  "fst (create_role_intent env fd w) \<noteq> Inr Undefined"
  "fst (delete_role_intent fd w) \<noteq> Inr Undefined"
  by (simp_all add: create_role_intent_run delete_role_intent_run split: option.splits)

lemma add_user_success:
  assumes form: "body req = Some fd"
    and run: "action_add_user env req w = (Inr (Redirect ''/admin/successful-user-created''), w')"
  shows "\<exists>d u. AddNewUserSchema_safeParse env (new_user_rawData fd) = Inr d
      \<and> users w' = users w @ [u]
      \<and> user_email u = toLowerCase env (nu_email d)
      \<and> user_username u = toLowerCase env (nu_username d)"
proof (cases "requireUserWithRole env req ''admin'' (users w)")
  case (Inl t)
  with run show ?thesis
    by (simp add: action_add_user_denied)
next
  case gate: (Inr caller)
  note passed = action_add_user_passed [OF gate form, unfolded run, symmetric]
  show ?thesis
  proof (cases "AddNewUserSchema_safeParse env (new_user_rawData fd)")
    case (Inl errs)
    with passed show ?thesis
      by (simp add: create_user_invalid)
  next
    case parse: (Inr d)
    from create_user_success [OF parse passed]
    have "users w' = users w @
       [\<lparr>user_id = cuid env, user_email = toLowerCase env (nu_email d),
         user_username = toLowerCase env (nu_username d), user_name = Some (nu_name d),
         user_password = Some (getPasswordHash env (nu_password d)),
         user_roles = remdups (nu_roles d), user_createdAt = now env\<rparr>]"
      by (simp add: users_emit)
    with parse show ?thesis
      by simp
  qed
qed

lemma add_new_users_success:
  assumes form: "body req = Some fd"
    and run: "action_add_new_users env req w = (Inr Undefined, w')"
  shows "\<exists>d u. AddNewUserSchema_safeParse env (new_user_rawData fd) = Inr d
      \<and> users w' = users w @ [u]
      \<and> user_email u = toLowerCase env (nu_email d)
      \<and> user_username u = toLowerCase env (nu_username d)"
proof (cases "requireUserWithRole env req ''admin'' (users w)")
  case (Inl t)
  with run show ?thesis
    by (simp add: action_add_new_users_denied)
next
  case gate: (Inr caller)
  note passed = action_add_new_users_passed [OF gate form, unfolded run, symmetric]
  have creation: "create_user env fd (returns Undefined)
      (emit ParseForm (emit (Authorize ''admin'') w)) = (Inr Undefined, w')"
  proof (cases "formData_get fd ''intent'' = Some (FormString ''create-role'')")
    case True
    with passed role_intents_return(1) [of env fd "emit ParseForm (emit (Authorize ''admin'') w)"]
    show ?thesis by simp
  next
    case not_create: False
    show ?thesis
    proof (cases "formData_get fd ''intent'' = Some (FormString ''delete-role'')")
      case True
      with passed not_create
        role_intents_return(2) [of fd "emit ParseForm (emit (Authorize ''admin'') w)"]
      show ?thesis by simp
    next
      case False
      with passed not_create show ?thesis by simp
    qed
  qed
  show ?thesis
  proof (cases "AddNewUserSchema_safeParse env (new_user_rawData fd)")
    case (Inl errs)
    with creation show ?thesis
      by (simp add: create_user_invalid)
  next
    case parse: (Inr d)
    from create_user_success [OF parse creation]
    have "users w' = users w @
       [\<lparr>user_id = cuid env, user_email = toLowerCase env (nu_email d),
         user_username = toLowerCase env (nu_username d), user_name = Some (nu_name d),
         user_password = Some (getPasswordHash env (nu_password d)),
         user_roles = remdups (nu_roles d), user_createdAt = now env\<rparr>]"
      by (simp add: users_emit)
    with parse show ?thesis
      by simp
  qed
qed

lemma edit_success_row:
  assumes form: "body req = Some fd"
    and run: "action_edit_user env req i w = (Inr (Redirect ''/admin/all-users''), w')"
  shows "\<exists>d. EditUserSchema_safeParse env (edit_rawData fd) = Inr d
      \<and> list_ex (\<lambda>u. user_id u = i) (users w')
      \<and> (\<forall>u \<in> set (users w'). user_id u = i \<longrightarrow>
           user_email u = toLowerCase env (eu_email d)
           \<and> user_username u = toLowerCase env (eu_username d))"
proof -
  from edit_success_users [OF form run] obtain d where
    parse: "EditUserSchema_safeParse env (edit_rawData fd) = Inr d"
    and target: "list_ex (\<lambda>x. user_id x = i) (users w)"
    and after: "users w' = map (\<lambda>x. if user_id x = i
                              then x\<lparr>user_email := toLowerCase env (eu_email d),
                                     user_username := toLowerCase env (eu_username d),
                                     user_name := Some (eu_name d),
                                     user_roles := remdups (eu_roles d)\<rparr>
                              else x) (users w)"
    by blast
  from target have exists: "list_ex (\<lambda>u. user_id u = i) (users w')"
    by (simp add: after list_ex_updated)
  have row: "user_email u = toLowerCase env (eu_email d)
      \<and> user_username u = toLowerCase env (eu_username d)"
    if u: "u \<in> set (users w')" and i: "user_id u = i" for u
    using updated_row [OF u [unfolded after] i] by simp
  from parse exists row show ?thesis
    by blast
qed

lemma list_ex_none_of_three:
  assumes "\<not> list_ex (\<lambda>x. A x \<or> B x \<or> C x) us"
  shows "\<not> list_ex B us" and "\<not> list_ex C us"
  using assms by (auto simp: list_ex_iff)

lemma rename_parse:
  "EditUserSchema_safeParse demo_env (edit_rawData rename_form) =
     Inr \<lparr>eu_email = ''Bobby@B.COM'', eu_username = ''BOBBY'', eu_name = ''Bob B'',
          eu_roles = [''user'']\<rparr>"
  by (simp add: EditUserSchema_safeParse_def edit_rawData_def
      rename_form_def formData_get_def formData_getAll_def demo_env_def z_min_def name_rule_def
      roles_rule_def z_default_def js_of_entries_def)

text \<open>
  C7. For a lowercase folding that is idempotent, on a store whose emails and usernames
  are their own foldings and pairwise different (the empty store is one, and every
  action keeps it so). A creation whose folded email and username are new, whose roles
  exist and whose identifier is new returns and appends the row with the folded email
  and username; an edit of an existing user whose folded email and username belong to
  no other user and whose roles exist returns the redirect and stores the folded email
  and username in the target row. Conversely, whenever a creation or an edit has
  succeeded, the row holds the folded validated values. A creation whose email equals
  a stored email up to case is answered with the email conflict and writes nothing;
  and after any run of the three actions the store still satisfies the invariant, so
  no two users share an email or a username up to case.
\<close>

theorem stored_emails_and_usernames_lowercase_unique:
  assumes ok: "store_ok env w"
    and idem: "idempotent_fold env"
  shows
    "(\<forall>caller fd d. requireUserWithRole env req ''admin'' (users w) = Inr caller
        \<and> body req = Some fd
        \<and> AddNewUserSchema_safeParse env (new_user_rawData fd) = Inr d
        \<and> \<not> list_ex (\<lambda>x. user_id x = cuid env \<or> user_email x = toLowerCase env (nu_email d)
                          \<or> user_username x = toLowerCase env (nu_username d)) (users w)
        \<and> list_all (role_exists w) (nu_roles d) \<longrightarrow>
        action_add_user env req w =
          (Inr (Redirect ''/admin/successful-user-created''),
           (emit (DbWrite (UserCreate (toLowerCase env (nu_email d))
                    (toLowerCase env (nu_username d))))
              (emit (DbRead (UserFindUniqueUsername (toLowerCase env (nu_username d))))
                 (emit (DbRead (UserFindUniqueEmail (toLowerCase env (nu_email d))))
                    (emit ParseForm (emit (Authorize ''admin'') w)))))
           \<lparr>users := users w @
              [\<lparr>user_id = cuid env, user_email = toLowerCase env (nu_email d),
                user_username = toLowerCase env (nu_username d), user_name = Some (nu_name d),
                user_password = Some (getPasswordHash env (nu_password d)),
                user_roles = remdups (nu_roles d), user_createdAt = now env\<rparr>]\<rparr>)
        \<and> (formData_get fd ''intent'' \<noteq> Some (FormString ''create-role'')
             \<and> formData_get fd ''intent'' \<noteq> Some (FormString ''delete-role'') \<longrightarrow>
           users (snd (action_add_new_users env req w)) = users w @
              [\<lparr>user_id = cuid env, user_email = toLowerCase env (nu_email d),
                user_username = toLowerCase env (nu_username d), user_name = Some (nu_name d),
                user_password = Some (getPasswordHash env (nu_password d)),
                user_roles = remdups (nu_roles d), user_createdAt = now env\<rparr>]))
     \<and> (\<forall>caller fd d. requireUserWithRole env req ''admin'' (users w) = Inr caller
        \<and> body req = Some fd
        \<and> EditUserSchema_safeParse env (edit_rawData fd) = Inr d
        \<and> \<not> list_ex (\<lambda>x. user_email x = toLowerCase env (eu_email d) \<and> user_id x \<noteq> userId)
              (users w)
        \<and> \<not> list_ex (\<lambda>x. user_username x = toLowerCase env (eu_username d) \<and> user_id x \<noteq> userId)
              (users w)
        \<and> list_ex (\<lambda>x. user_id x = userId) (users w)
        \<and> list_all (role_exists w) (eu_roles d) \<longrightarrow>
        action_edit_user env req userId w =
          (Inr (Redirect ''/admin/all-users''),
           (emit (DbWrite (UserUpdate userId))
              (emit (DbRead (UserFindFirstUsername (toLowerCase env (eu_username d)) userId))
                 (emit (DbRead (UserFindFirstEmail (toLowerCase env (eu_email d)) userId))
                    (emit ParseForm (emit (Authorize ''admin'') w)))))
           \<lparr>users := map (\<lambda>x. if user_id x = userId
                                 then x\<lparr>user_email := toLowerCase env (eu_email d),
                                        user_username := toLowerCase env (eu_username d),
                                        user_name := Some (eu_name d),
                                        user_roles := remdups (eu_roles d)\<rparr>
                                 else x) (users w)\<rparr>))
     \<and> (\<forall>fd w'. body req = Some fd
        \<and> action_add_user env req w = (Inr (Redirect ''/admin/successful-user-created''), w') \<longrightarrow>
        (\<exists>d u. AddNewUserSchema_safeParse env (new_user_rawData fd) = Inr d
           \<and> users w' = users w @ [u]
           \<and> user_email u = toLowerCase env (nu_email d)
           \<and> user_username u = toLowerCase env (nu_username d)))
     \<and> (\<forall>fd w'. body req = Some fd
        \<and> action_add_new_users env req w = (Inr Undefined, w') \<longrightarrow>
        (\<exists>d u. AddNewUserSchema_safeParse env (new_user_rawData fd) = Inr d
           \<and> users w' = users w @ [u]
           \<and> user_email u = toLowerCase env (nu_email d)
           \<and> user_username u = toLowerCase env (nu_username d)))
     \<and> (\<forall>fd w'. body req = Some fd
        \<and> action_edit_user env req userId w = (Inr (Redirect ''/admin/all-users''), w') \<longrightarrow>
        (\<exists>d. EditUserSchema_safeParse env (edit_rawData fd) = Inr d
           \<and> list_ex (\<lambda>u. user_id u = userId) (users w')
           \<and> (\<forall>u \<in> set (users w'). user_id u = userId \<longrightarrow>
                user_email u = toLowerCase env (eu_email d)
                \<and> user_username u = toLowerCase env (eu_username d))))
     \<and> (\<forall>caller fd d u. requireUserWithRole env req ''admin'' (users w) = Inr caller
        \<and> body req = Some fd
        \<and> AddNewUserSchema_safeParse env (new_user_rawData fd) = Inr d
        \<and> u \<in> set (users w)
        \<and> toLowerCase env (user_email u) = toLowerCase env (nu_email d) \<longrightarrow>
        action_add_user env req w =
          (Inr (Errors [(''email'', [''A user with this email already exists''])] 400),
           emit (DbRead (UserFindUniqueEmail (toLowerCase env (nu_email d))))
             (emit ParseForm (emit (Authorize ''admin'') w)))
        \<and> (formData_get fd ''intent'' \<noteq> Some (FormString ''create-role'')
             \<and> formData_get fd ''intent'' \<noteq> Some (FormString ''delete-role'') \<longrightarrow>
           action_add_new_users env req w =
             (Inr (Errors [(''email'', [''A user with this email already exists''])] 400),
              emit (DbRead (UserFindUniqueEmail (toLowerCase env (nu_email d))))
                (emit ParseForm (emit (Authorize ''admin'') w)))))
     \<and> store_ok env (snd (action_add_user env req w))
     \<and> case_insensitive_unique env (snd (action_add_user env req w))
     \<and> store_ok env (snd (action_add_new_users env req w))
     \<and> case_insensitive_unique env (snd (action_add_new_users env req w))
     \<and> store_ok env (snd (action_edit_user env req userId w))
     \<and> case_insensitive_unique env (snd (action_edit_user env req userId w))"
proof (intro conjI allI impI)
  fix caller fd d
  assume h: "requireUserWithRole env req ''admin'' (users w) = Inr caller
    \<and> body req = Some fd
    \<and> AddNewUserSchema_safeParse env (new_user_rawData fd) = Inr d
    \<and> \<not> list_ex (\<lambda>x. user_id x = cuid env \<or> user_email x = toLowerCase env (nu_email d)
                      \<or> user_username x = toLowerCase env (nu_username d)) (users w)
    \<and> list_all (role_exists w) (nu_roles d)"
  then have gate: "requireUserWithRole env req ''admin'' (users w) = Inr caller"
    and form: "body req = Some fd"
    and parse: "AddNewUserSchema_safeParse env (new_user_rawData fd) = Inr d"
    and fresh: "\<not> list_ex (\<lambda>x. user_id x = cuid env
                      \<or> user_email x = toLowerCase env (nu_email d)
                      \<or> user_username x = toLowerCase env (nu_username d)) (users w)"
    and known: "list_all (role_exists w) (nu_roles d)"
    by simp_all
  note free = list_ex_none_of_three [OF fresh]
  from fresh free known show "action_add_user env req w =
      (Inr (Redirect ''/admin/successful-user-created''),
       (emit (DbWrite (UserCreate (toLowerCase env (nu_email d))
                (toLowerCase env (nu_username d))))
          (emit (DbRead (UserFindUniqueUsername (toLowerCase env (nu_username d))))
             (emit (DbRead (UserFindUniqueEmail (toLowerCase env (nu_email d))))
                (emit ParseForm (emit (Authorize ''admin'') w)))))
       \<lparr>users := users w @
          [\<lparr>user_id = cuid env, user_email = toLowerCase env (nu_email d),
            user_username = toLowerCase env (nu_username d), user_name = Some (nu_name d),
            user_password = Some (getPasswordHash env (nu_password d)),
            user_roles = remdups (nu_roles d), user_createdAt = now env\<rparr>]\<rparr>)"
    by (simp add: action_add_user_passed [OF gate form] create_user_outcome [OF parse]
        users_emit role_exists_emit)
  assume "formData_get fd ''intent'' \<noteq> Some (FormString ''create-role'')
    \<and> formData_get fd ''intent'' \<noteq> Some (FormString ''delete-role'')"
  with fresh free known show "users (snd (action_add_new_users env req w)) = users w @
          [\<lparr>user_id = cuid env, user_email = toLowerCase env (nu_email d),
            user_username = toLowerCase env (nu_username d), user_name = Some (nu_name d),
            user_password = Some (getPasswordHash env (nu_password d)),
            user_roles = remdups (nu_roles d), user_createdAt = now env\<rparr>]"
    by (simp add: action_add_new_users_passed [OF gate form] create_user_outcome [OF parse]
        users_emit role_exists_emit)
next
  fix caller fd d
  assume h: "requireUserWithRole env req ''admin'' (users w) = Inr caller
    \<and> body req = Some fd
    \<and> EditUserSchema_safeParse env (edit_rawData fd) = Inr d
    \<and> \<not> list_ex (\<lambda>x. user_email x = toLowerCase env (eu_email d) \<and> user_id x \<noteq> userId)
          (users w)
    \<and> \<not> list_ex (\<lambda>x. user_username x = toLowerCase env (eu_username d) \<and> user_id x \<noteq> userId)
          (users w)
    \<and> list_ex (\<lambda>x. user_id x = userId) (users w)
    \<and> list_all (role_exists w) (eu_roles d)"
  then have gate: "requireUserWithRole env req ''admin'' (users w) = Inr caller"
    and form: "body req = Some fd"
    and parse: "EditUserSchema_safeParse env (edit_rawData fd) = Inr d"
    by simp_all
  from h show "action_edit_user env req userId w =
      (Inr (Redirect ''/admin/all-users''),
       (emit (DbWrite (UserUpdate userId))
          (emit (DbRead (UserFindFirstUsername (toLowerCase env (eu_username d)) userId))
             (emit (DbRead (UserFindFirstEmail (toLowerCase env (eu_email d)) userId))
                (emit ParseForm (emit (Authorize ''admin'') w)))))
       \<lparr>users := map (\<lambda>x. if user_id x = userId
                             then x\<lparr>user_email := toLowerCase env (eu_email d),
                                    user_username := toLowerCase env (eu_username d),
                                    user_name := Some (eu_name d),
                                    user_roles := remdups (eu_roles d)\<rparr>
                             else x) (users w)\<rparr>)"
    by (simp add: action_edit_user_run [OF gate form parse] Let_def)
next
  fix fd w'
  assume "body req = Some fd
    \<and> action_add_user env req w = (Inr (Redirect ''/admin/successful-user-created''), w')"
  then show "\<exists>d u. AddNewUserSchema_safeParse env (new_user_rawData fd) = Inr d
      \<and> users w' = users w @ [u]
      \<and> user_email u = toLowerCase env (nu_email d)
      \<and> user_username u = toLowerCase env (nu_username d)"
    using add_user_success by blast
next
  fix fd w'
  assume "body req = Some fd \<and> action_add_new_users env req w = (Inr Undefined, w')"
  then show "\<exists>d u. AddNewUserSchema_safeParse env (new_user_rawData fd) = Inr d
      \<and> users w' = users w @ [u]
      \<and> user_email u = toLowerCase env (nu_email d)
      \<and> user_username u = toLowerCase env (nu_username d)"
    using add_new_users_success by blast
next
  fix fd w'
  assume "body req = Some fd
    \<and> action_edit_user env req userId w = (Inr (Redirect ''/admin/all-users''), w')"
  then show "\<exists>d. EditUserSchema_safeParse env (edit_rawData fd) = Inr d
      \<and> list_ex (\<lambda>u. user_id u = userId) (users w')
      \<and> (\<forall>u \<in> set (users w'). user_id u = userId \<longrightarrow>
           user_email u = toLowerCase env (eu_email d)
           \<and> user_username u = toLowerCase env (eu_username d))"
    using edit_success_row by blast
next
  fix caller fd d u
  assume h: "requireUserWithRole env req ''admin'' (users w) = Inr caller
    \<and> body req = Some fd
    \<and> AddNewUserSchema_safeParse env (new_user_rawData fd) = Inr d
    \<and> u \<in> set (users w)
    \<and> toLowerCase env (user_email u) = toLowerCase env (nu_email d)"
  from ok have "normalized_rows env (users w)"
    by (simp add: store_ok_def)
  with h have conflict: "list_ex (\<lambda>x. user_email x = toLowerCase env (nu_email d)) (users w)"
    using normalized_conflict by blast
  from h conflict show "action_add_user env req w =
      (Inr (Errors [(''email'', [''A user with this email already exists''])] 400),
       emit (DbRead (UserFindUniqueEmail (toLowerCase env (nu_email d))))
         (emit ParseForm (emit (Authorize ''admin'') w)))"
    using add_user_email_conflict by blast
  assume "formData_get fd ''intent'' \<noteq> Some (FormString ''create-role'')
    \<and> formData_get fd ''intent'' \<noteq> Some (FormString ''delete-role'')"
  with h conflict show "action_add_new_users env req w =
      (Inr (Errors [(''email'', [''A user with this email already exists''])] 400),
       emit (DbRead (UserFindUniqueEmail (toLowerCase env (nu_email d))))
         (emit ParseForm (emit (Authorize ''admin'') w)))"
    using add_new_users_email_conflict by blast
next
  show "store_ok env (snd (action_add_user env req w))"
    by (rule store_ok_action_add_user [OF ok idem])
  then show "case_insensitive_unique env (snd (action_add_user env req w))"
    by (rule store_ok_case_insensitive)
next
  show "store_ok env (snd (action_add_new_users env req w))"
    by (rule store_ok_action_add_new_users [OF ok idem])
  then show "case_insensitive_unique env (snd (action_add_new_users env req w))"
    by (rule store_ok_case_insensitive)
next
  show "store_ok env (snd (action_edit_user env req userId w))"
    by (rule store_ok_action_edit_user [OF ok idem])
  then show "case_insensitive_unique env (snd (action_edit_user env req userId w))"
    by (rule store_ok_case_insensitive)
qed

theorem stored_emails_and_usernames_lowercase_unique_witness:
  "store_ok demo_env demo_world
   \<and> action_add_user demo_env (demo_request bob_user_form) demo_world =
       (Inr (Redirect ''/admin/successful-user-created''),
        (emit (DbWrite (UserCreate ''a@b.com'' ''bob''))
           (emit (DbRead (UserFindUniqueUsername ''bob''))
              (emit (DbRead (UserFindUniqueEmail ''a@b.com''))
                 (emit ParseForm (emit (Authorize ''admin'') demo_world)))))
        \<lparr>users := [root_user, bob_user]\<rparr>)
   \<and> map user_email (users bob_world) = [''root@b.com'', ''a@b.com'']
   \<and> map user_username (users bob_world) = [''root'', ''bob'']
   \<and> store_ok demo_env bob_world
   \<and> case_insensitive_unique demo_env bob_world
   \<and> action_add_user demo_env (demo_request bob_user_form) bob_world =
       (Inr (Errors [(''email'', [''A user with this email already exists''])] 400),
        emit (DbRead (UserFindUniqueEmail ''a@b.com''))
          (emit ParseForm (emit (Authorize ''admin'') bob_world)))
   \<and> action_edit_user demo_env (demo_request rename_form) ''u2'' bob_world =
       (Inr (Redirect ''/admin/all-users''),
        (emit (DbWrite (UserUpdate ''u2''))
           (emit (DbRead (UserFindFirstUsername ''bobby'' ''u2''))
              (emit (DbRead (UserFindFirstEmail ''bobby@b.com'' ''u2''))
                 (emit ParseForm (emit (Authorize ''admin'') bob_world)))))
        \<lparr>users := [root_user,
                    bob_user\<lparr>user_email := ''bobby@b.com'', user_username := ''bobby''\<rparr>]\<rparr>)"
proof -
  let ?d = "\<lparr>nu_email = ''A@B.com'', nu_username = ''Bob'', nu_password = ''validpass123'',
             nu_name = ''Bob B'', nu_roles = [''user'']\<rparr>"
  let ?e = "\<lparr>eu_email = ''Bobby@B.COM'', eu_username = ''BOBBY'', eu_name = ''Bob B'',
             eu_roles = [''user'']\<rparr>"
  have lower: "toLowerCase demo_env ''root@b.com'' = ''root@b.com''"
    "toLowerCase demo_env ''root'' = ''root''"
    "toLowerCase demo_env ''a@b.com'' = ''a@b.com''"
    "toLowerCase demo_env ''Bobby@B.COM'' = ''bobby@b.com''"
    "toLowerCase demo_env ''BOBBY'' = ''bobby''"
    by (simp_all add: demo_fold ascii_lower_def lower_char_def)
  have ok: "store_ok demo_env demo_world"
    by (simp add: store_ok_def normalized_rows_def unique_rows_def demo_users root_user_def lower)
  note first = stored_emails_and_usernames_lowercase_unique
    [OF ok demo_fold_idempotent, where req = "demo_request bob_user_form" and userId = "''u1''"]
  from first have bob_ok: "store_ok demo_env bob_world"
    and bob_ci: "case_insensitive_unique demo_env bob_world"
    by (simp_all add: bob_world_def)
  have new: "requireUserWithRole demo_env (demo_request bob_user_form) ''admin''
        (users demo_world) = Inr ''u1''
      \<and> body (demo_request bob_user_form) = Some bob_user_form
      \<and> AddNewUserSchema_safeParse demo_env (new_user_rawData bob_user_form) = Inr ?d
      \<and> \<not> list_ex (\<lambda>x. user_id x = cuid demo_env
            \<or> user_email x = toLowerCase demo_env (nu_email ?d)
            \<or> user_username x = toLowerCase demo_env (nu_username ?d)) (users demo_world)
      \<and> list_all (role_exists demo_world) (nu_roles ?d)"
    by (simp add: demo_gate demo_body bob_user_parse demo_role_exists)
      (simp add: demo_users root_user_def demo_env_fields lower_bob)
  note appended = first [THEN conjunct1, rule_format, OF new, THEN conjunct1]
  have created:
    "action_add_user demo_env (demo_request bob_user_form) demo_world =
       (Inr (Redirect ''/admin/successful-user-created''),
        (emit (DbWrite (UserCreate ''a@b.com'' ''bob''))
           (emit (DbRead (UserFindUniqueUsername ''bob''))
              (emit (DbRead (UserFindUniqueEmail ''a@b.com''))
                 (emit ParseForm (emit (Authorize ''admin'') demo_world)))))
        \<lparr>users := [root_user, bob_user]\<rparr>)"
    by (simp add: appended lower_bob demo_env_fields demo_users bob_user_def)
  note second = stored_emails_and_usernames_lowercase_unique
    [OF bob_ok demo_fold_idempotent, where req = "demo_request bob_user_form"
      and userId = "''u1''"]
  have member: "bob_user \<in> set (users bob_world)"
    by (simp add: bob_world_users)
  have held: "user_email bob_user = ''a@b.com''"
    by (simp add: bob_user_def)
  have taken: "requireUserWithRole demo_env (demo_request bob_user_form) ''admin''
        (users bob_world) = Inr ''u1''
      \<and> body (demo_request bob_user_form) = Some bob_user_form
      \<and> AddNewUserSchema_safeParse demo_env (new_user_rawData bob_user_form) = Inr ?d
      \<and> bob_user \<in> set (users bob_world)
      \<and> toLowerCase demo_env (user_email bob_user) = toLowerCase demo_env (nu_email ?d)"
    by (simp add: bob_world_gate demo_body bob_user_parse member held lower lower_bob)
  note conflict = second [THEN conjunct2, THEN conjunct2, THEN conjunct2, THEN conjunct2,
      THEN conjunct2, THEN conjunct1, rule_format, OF taken, THEN conjunct1]
  have rejected: "action_add_user demo_env (demo_request bob_user_form) bob_world =
       (Inr (Errors [(''email'', [''A user with this email already exists''])] 400),
        emit (DbRead (UserFindUniqueEmail ''a@b.com''))
          (emit ParseForm (emit (Authorize ''admin'') bob_world)))"
    by (simp add: conflict lower_bob)
  note third = stored_emails_and_usernames_lowercase_unique
    [OF bob_ok demo_fold_idempotent, where req = "demo_request rename_form"
      and userId = "''u2''"]
  have free: "requireUserWithRole demo_env (demo_request rename_form) ''admin''
        (users bob_world) = Inr ''u1''
      \<and> body (demo_request rename_form) = Some rename_form
      \<and> EditUserSchema_safeParse demo_env (edit_rawData rename_form) = Inr ?e
      \<and> \<not> list_ex (\<lambda>x. user_email x = toLowerCase demo_env (eu_email ?e)
            \<and> user_id x \<noteq> ''u2'') (users bob_world)
      \<and> \<not> list_ex (\<lambda>x. user_username x = toLowerCase demo_env (eu_username ?e)
            \<and> user_id x \<noteq> ''u2'') (users bob_world)
      \<and> list_ex (\<lambda>x. user_id x = ''u2'') (users bob_world)
      \<and> list_all (role_exists bob_world) (eu_roles ?e)"
    by (simp add: bob_world_gate demo_body rename_parse bob_world_role_exists lower)
      (simp add: bob_world_users root_user_def bob_user_def)
  note stored = third [THEN conjunct2, THEN conjunct1, rule_format, OF free]
  have renamed:
    "action_edit_user demo_env (demo_request rename_form) ''u2'' bob_world =
       (Inr (Redirect ''/admin/all-users''),
        (emit (DbWrite (UserUpdate ''u2''))
           (emit (DbRead (UserFindFirstUsername ''bobby'' ''u2''))
              (emit (DbRead (UserFindFirstEmail ''bobby@b.com'' ''u2''))
                 (emit ParseForm (emit (Authorize ''admin'') bob_world)))))
        \<lparr>users := [root_user,
                    bob_user\<lparr>user_email := ''bobby@b.com'', user_username := ''bobby''\<rparr>]\<rparr>)"
    by (simp add: stored lower)
      (simp add: bob_world_users root_user_def bob_user_def lower)
  have rows: "map user_email (users bob_world) = [''root@b.com'', ''a@b.com'']"
    "map user_username (users bob_world) = [''root'', ''bob'']"
    by (simp_all add: bob_world_users root_user_def bob_user_def)
  from ok created rows bob_ok bob_ci rejected renamed show ?thesis
    by (intro conjI)
qed

end
